theory Spec2Isabelle
  imports Main
begin

section \<open>JavaScript values that cross the services\<close>

text \<open>
  \<open>result_codes\<close> is the object Horizon attaches to a rejected submission
  (\<open>error.response.data.extras.result_codes\<close>), as a list of fields.
\<close>

type_synonym result_codes = "(string \<times> string) list"

text \<open>
  A value that can be thrown. \<open>Error msg\<close> is \<open>new Error(msg)\<close>, the only kind of error
  the services themselves construct. \<open>Thrown shown extras\<close> is a value thrown by a
  collaborator (the Stellar SDK, a listener, a stream's close function): \<open>shown\<close> is its
  string form; \<open>extras\<close> is \<open>None\<close> when the value has no \<open>response.data.extras\<close>, and
  otherwise \<open>Some\<close> of \<open>response.data.extras.result_codes\<close>, which is \<open>None\<close> when that
  property is \<open>undefined\<close>.
\<close>

datatype thrown = Error string | Thrown string "result_codes option option"

text \<open>The string a template literal \<open>${error}\<close> produces.\<close>

fun String_of :: "thrown \<Rightarrow> string" where
  "String_of (Error msg) = (if msg = [] then ''Error'' else ''Error: '' @ msg)"
| "String_of (Thrown shown _) = shown"

text \<open>The \<open>name\<close> property of a thrown value, when it is an \<open>Error\<close> object of the services.\<close>

fun error_name :: "thrown \<Rightarrow> string option" where
  "error_name (Error _) = Some ''Error''"
| "error_name (Thrown _ _) = None"

datatype JsValue = JsUndefined | JsNull | JsBoolean bool | JsNumber int | JsString string

type_synonym JsObject = "(string \<times> JsValue) list"

text \<open>Property read \<open>obj.k\<close>: \<open>undefined\<close> when the object has no such property.\<close>

definition get_prop :: "JsObject \<Rightarrow> string \<Rightarrow> JsValue" where
  "get_prop obj k = (case map_of obj k of None \<Rightarrow> JsUndefined | Some v \<Rightarrow> v)"

text \<open>\<open>v === s\<close> for a string \<open>s\<close>: true only for a string value with the same characters.\<close>

fun strict_eq_string :: "JsValue \<Rightarrow> string \<Rightarrow> bool" where
  "strict_eq_string (JsString t) s = (t = s)"
| "strict_eq_string _ s = False"

subsection \<open>Insertion-ordered \<open>Map\<close> and \<open>Set\<close>\<close>

text \<open>
  A JavaScript \<open>Map\<close> is a list of entries in insertion order with unique keys; \<open>set\<close> on
  a present key replaces the value in place, on an absent key it appends. A \<open>Set\<close> is a
  list of members in insertion order; \<open>add\<close> of a member changes nothing.
\<close>

definition Map_get :: "('k \<times> 'v) list \<Rightarrow> 'k \<Rightarrow> 'v option" where
  "Map_get m k = map_of m k"

definition Map_has :: "('k \<times> 'v) list \<Rightarrow> 'k \<Rightarrow> bool" where
  "Map_has m k = (map_of m k \<noteq> None)"

fun Map_set :: "('k \<times> 'v) list \<Rightarrow> 'k \<Rightarrow> 'v \<Rightarrow> ('k \<times> 'v) list" where
  "Map_set [] k v = [(k, v)]"
| "Map_set ((k', v') # m) k v = (if k' = k then (k, v) # m else (k', v') # Map_set m k v)"

definition Map_delete :: "('k \<times> 'v) list \<Rightarrow> 'k \<Rightarrow> ('k \<times> 'v) list" where
  "Map_delete m k = filter (\<lambda>e. fst e \<noteq> k) m"

definition Set_add :: "'a list \<Rightarrow> 'a \<Rightarrow> 'a list" where
  "Set_add s x = (if x \<in> set s then s else s @ [x])"

definition Set_delete :: "'a list \<Rightarrow> 'a \<Rightarrow> 'a list" where
  "Set_delete s x = remove1 x s"

text \<open>
  \<open>forEach\<close> over the entries in order. The body may throw: the first exception ends
  the iteration and is the result, the later entries are not visited.
\<close>

fun forEach :: "('a \<Rightarrow> 's \<Rightarrow> (thrown + unit) \<times> 's) \<Rightarrow> 'a list \<Rightarrow> 's \<Rightarrow> (thrown + unit) \<times> 's" where
  "forEach f [] st = (Inr (), st)"
| "forEach f (x # xs) st =
     (case f x st of
        (Inl e, st') \<Rightarrow> (Inl e, st')
      | (Inr _, st') \<Rightarrow> forEach f xs st')"

section \<open>Types (\<open>src/types/index.ts\<close>)\<close>

datatype EventType =
  ACCOUNT_UPDATED | PAYMENT_RECEIVED | PAYMENT_SENT | TRANSACTION_SUBMITTED | TRANSACTION_FAILED

fun EventType_string :: "EventType \<Rightarrow> string" where
  "EventType_string ACCOUNT_UPDATED = ''ACCOUNT_UPDATED''"
| "EventType_string PAYMENT_RECEIVED = ''PAYMENT_RECEIVED''"
| "EventType_string PAYMENT_SENT = ''PAYMENT_SENT''"
| "EventType_string TRANSACTION_SUBMITTED = ''TRANSACTION_SUBMITTED''"
| "EventType_string TRANSACTION_FAILED = ''TRANSACTION_FAILED''"

record EventData =
  ev_type :: EventType
  payload :: JsObject

text \<open>
  An \<open>EventCallback\<close> is a function object; listeners are compared by identity, so a
  callback is its identity here. What it does when called is given by a behaviour
  function: \<open>None\<close> when the call returns, \<open>Some e\<close> when it throws \<open>e\<close>.
\<close>

type_synonym EventCallback = nat

type_synonym listener_behaviour = "EventCallback \<Rightarrow> EventData \<Rightarrow> thrown option"

section \<open>The streaming transport seen by \<open>EventService\<close>\<close>

datatype StreamKind = AccountsStream | PaymentsStream

text \<open>
  The Horizon server keeps one entry per stream it was asked to open: its kind, the
  account it is for and whether it is still open. \<open>stream(...)\<close> returns the close
  function of the new stream; a close function is the index of its stream. Every call
  the service makes on the transport is recorded in order.
\<close>

datatype TransportCall = StreamOpened StreamKind string nat | CloseCalled nat

type_synonym close_behaviour = "nat \<Rightarrow> thrown option"

record EventService =
  listeners :: "(EventType \<times> EventCallback list) list"
  closeCallbacks :: "(string \<times> nat) list"
  streams :: "(StreamKind \<times> string \<times> bool) list"
  transportCalls :: "TransportCall list"
  invoked :: "(EventCallback \<times> EventData) list"
  console :: "(string \<times> thrown) list"

text \<open>The constructor: both maps empty, nothing opened, nothing logged.\<close>

definition new_EventService :: EventService where
  "new_EventService =
     \<lparr>listeners = [], closeCallbacks = [], streams = [], transportCalls = [],
      invoked = [], console = []\<rparr>"


definition mark_closed :: "nat \<Rightarrow> (StreamKind \<times> string \<times> bool) list \<Rightarrow> (StreamKind \<times> string \<times> bool) list" where
  "mark_closed h ss =
     (if h < length ss then ss[h := (fst (ss ! h), fst (snd (ss ! h)), False)] else ss)"

text \<open>
  Calling a stored close function \<open>closeCallback()\<close>. The call is recorded; when it
  returns the stream is closed, when it throws the stream is left as it was.
\<close>

definition call_close :: "close_behaviour \<Rightarrow> nat \<Rightarrow> EventService \<Rightarrow> (thrown + unit) \<times> EventService" where
  "call_close cb h st =
     (let st1 = st\<lparr>transportCalls := transportCalls st @ [CloseCalled h]\<rparr> in
      case cb h of
        Some e \<Rightarrow> (Inl e, st1)
      | None \<Rightarrow> (Inr (), st1\<lparr>streams := mark_closed h (streams st1)\<rparr>))"

section \<open>\<open>EventService\<close>\<close>

definition addEventListener :: "EventType \<Rightarrow> EventCallback \<Rightarrow> EventService \<Rightarrow> EventService" where
  "addEventListener eventType callback st =
     (let st1 = (if \<not> Map_has (listeners st) eventType
                 then st\<lparr>listeners := Map_set (listeners st) eventType []\<rparr>
                 else st) in
      case Map_get (listeners st1) eventType of
        None \<Rightarrow> st1
      | Some s \<Rightarrow> st1\<lparr>listeners := Map_set (listeners st1) eventType (Set_add s callback)\<rparr>)"

definition removeEventListener :: "EventType \<Rightarrow> EventCallback \<Rightarrow> EventService \<Rightarrow> EventService" where
  "removeEventListener eventType callback st =
     (if Map_has (listeners st) eventType
      then (case Map_get (listeners st) eventType of
              None \<Rightarrow> st
            | Some s \<Rightarrow> st\<lparr>listeners := Map_set (listeners st) eventType (Set_delete s callback)\<rparr>)
      else st)"

text \<open>
  The body of the \<open>forEach\<close> in \<open>emitEvent\<close>: the callback is called inside
  \<open>try\<close>; what it throws is caught and written to the console.
\<close>

definition call_listener :: "listener_behaviour \<Rightarrow> EventData \<Rightarrow> EventCallback \<Rightarrow> EventService \<Rightarrow> (thrown + unit) \<times> EventService" where
  "call_listener lb eventData callback st =
     (let st1 = st\<lparr>invoked := invoked st @ [(callback, eventData)]\<rparr> in
      case lb callback eventData of
        None \<Rightarrow> (Inr (), st1)
      | Some e \<Rightarrow>
          (Inr (), st1\<lparr>console := console st1 @
             [(''Error in event listener for '' @ EventType_string (ev_type eventData) @ '':'', e)]\<rparr>))"

definition emitEvent :: "listener_behaviour \<Rightarrow> EventData \<Rightarrow> EventService \<Rightarrow> (thrown + unit) \<times> EventService" where
  "emitEvent lb eventData st =
     (case Map_get (listeners st) (ev_type eventData) of
        Some ls \<Rightarrow> forEach (call_listener lb eventData) ls st
      | None \<Rightarrow> (Inr (), st))"

definition unsubscribe :: "close_behaviour \<Rightarrow> string \<Rightarrow> EventService \<Rightarrow> (thrown + bool) \<times> EventService" where
  "unsubscribe cb subscriptionId st =
     (case Map_get (closeCallbacks st) subscriptionId of
        Some closeCallback \<Rightarrow>
          (case call_close cb closeCallback st of
             (Inl e, st1) \<Rightarrow> (Inl e, st1)
           | (Inr _, st1) \<Rightarrow>
               (Inr True, st1\<lparr>closeCallbacks := Map_delete (closeCallbacks st1) subscriptionId\<rparr>))
      | None \<Rightarrow> (Inr False, st))"

definition unsubscribeAll :: "close_behaviour \<Rightarrow> EventService \<Rightarrow> (thrown + unit) \<times> EventService" where
  "unsubscribeAll cb st =
     (case forEach (\<lambda>entry. call_close cb (snd entry)) (closeCallbacks st) st of
        (Inl e, st1) \<Rightarrow> (Inl e, st1)
      | (Inr _, st1) \<Rightarrow> (Inr (), st1\<lparr>closeCallbacks := []\<rparr>))"



text \<open>
  The \<open>onmessage\<close> handlers the two subscriptions install on their streams; the
  \<open>onerror\<close> handlers only write to the console.
\<close>

definition account_event :: "JsObject \<Rightarrow> EventData" where
  "account_event accountData = \<lparr>ev_type = ACCOUNT_UPDATED, payload = accountData\<rparr>"

definition account_onmessage :: "listener_behaviour \<Rightarrow> JsObject \<Rightarrow> EventService \<Rightarrow> (thrown + unit) \<times> EventService" where
  "account_onmessage lb accountData st = emitEvent lb (account_event accountData) st"

definition payment_event :: "string \<Rightarrow> JsObject \<Rightarrow> EventData" where
  "payment_event publicKey paymentData =
     (let eventType = (if strict_eq_string (get_prop paymentData ''to'') publicKey
                       then PAYMENT_RECEIVED else PAYMENT_SENT)
      in \<lparr>ev_type = eventType, payload = paymentData\<rparr>)"

definition payments_onmessage :: "listener_behaviour \<Rightarrow> string \<Rightarrow> JsObject \<Rightarrow> EventService \<Rightarrow> (thrown + unit) \<times> EventService" where
  "payments_onmessage lb publicKey paymentData st = emitEvent lb (payment_event publicKey paymentData) st"

section \<open>Observations used in the statements\<close>

text \<open>The listeners registered for an event class, in insertion order.\<close>

definition registered :: "EventService \<Rightarrow> EventType \<Rightarrow> EventCallback list" where
  "registered st t = (case Map_get (listeners st) t of None \<Rightarrow> [] | Some ls \<Rightarrow> ls)"

definition listener_errors :: "listener_behaviour \<Rightarrow> EventData \<Rightarrow> EventCallback list \<Rightarrow> (string \<times> thrown) list" where
  "listener_errors lb ev ls =
     concat (map (\<lambda>c. case lb c ev of None \<Rightarrow> []
        | Some e \<Rightarrow> [(''Error in event listener for '' @ EventType_string (ev_type ev) @ '':'', e)]) ls)"


text \<open>
  The key of a subscription, and the streams of a kind and account that the transport
  still holds open.
\<close>

fun subscription_key :: "StreamKind \<Rightarrow> string \<Rightarrow> string" where
  "subscription_key AccountsStream accountId = ''account-'' @ accountId"
| "subscription_key PaymentsStream accountId = ''payments-'' @ accountId"


text \<open>
  The registry's invariant: a stream that is open is the one whose close function is
  stored under its subscription key.
\<close>

definition registry_inv :: "EventService \<Rightarrow> bool" where
  "registry_inv st =
     list_all (\<lambda>h. case streams st ! h of
                  (kind, accountId, is_open) \<Rightarrow>
                    \<not> is_open \<or> Map_get (closeCallbacks st) (subscription_key kind accountId) = Some h)
       [0..<length (streams st)]"







section \<open>Types of the transaction path (\<open>src/types/index.ts\<close>)\<close>

datatype NetworkType = PUBLIC | TESTNET | CUSTOM

record NetworkConfig =
  networkType :: NetworkType
  networkPassphrase :: string
  horizonUrl :: string

record KeyPairData =
  publicKey :: string
  secretKey :: "string option"

record BalanceData =
  asset_type :: string
  asset_code :: "string option"
  asset_issuer :: "string option"
  balance :: string

record AccountData =
  acct_id :: string
  name :: "string option"
  keyPair :: KeyPairData
  balances :: "BalanceData list option"

text \<open>The SDK's \<open>Asset\<close>: the native asset, or a code with its issuer.\<close>

datatype Asset = Native | Issued string string

text \<open>
  \<open>PaymentOptions\<close> and \<open>TrustlineOptions\<close>. An optional field is \<open>None\<close> when it is
  \<open>undefined\<close>. Both interfaces have a field \<open>asset\<close>; the trustline's is \<open>trust_asset\<close>
  here, and the \<open>id\<close> of \<open>AccountData\<close> is \<open>acct_id\<close>.
\<close>

record PaymentOptions =
  destination :: string
  amount :: string
  asset :: Asset
  memo :: "string option"

record TrustlineOptions =
  trust_asset :: Asset
  limit :: "string option"

text \<open>\<open>if (options.memo)\<close>: \<open>undefined\<close> and the empty string are falsy.\<close>

fun truthy :: "string option \<Rightarrow> bool" where
  "truthy None = False"
| "truthy (Some s) = (s \<noteq> [])"

section \<open>The Stellar SDK as the services use it\<close>

text \<open>
  The SDK is a library outside the repository. A transaction is modelled as the record
  of what the builder was given: the source account, the fee and network passphrase of
  its options, the operations added, the memo added, the timeout set, and the
  signatures made on it.
\<close>

record Account =
  account_id :: string
  sequence :: string

datatype Operation =
  Payment string Asset string
| ChangeTrust Asset "string option"
| CreateAccount string string

datatype Memo = MemoText string

record Transaction =
  source :: Account
  fee :: string
  tx_networkPassphrase :: string
  operations :: "Operation list"
  tx_memo :: "Memo option"
  timeout :: "nat option"
  signatures :: "string list"

text \<open>
  What the SDK decides is a parameter: the answers of the Horizon server, which
  operation arguments and memo texts the SDK rejects (\<open>Some e\<close>: it throws \<open>e\<close>), which
  secret keys decode (to the public key of the pair), and \<open>JSON.stringify\<close> on result
  codes.
\<close>

record Sdk =
  server_loadAccount :: "string \<Rightarrow> thrown + Account"
  server_submitTransaction :: "Transaction \<Rightarrow> thrown + JsObject"
  Operation_payment_rejects :: "string \<Rightarrow> Asset \<Rightarrow> string \<Rightarrow> thrown option"
  Operation_changeTrust_rejects :: "Asset \<Rightarrow> string option \<Rightarrow> thrown option"
  Memo_text_rejects :: "string \<Rightarrow> thrown option"
  Keypair_fromSecret :: "string \<Rightarrow> thrown + string"
  JSON_stringify :: "result_codes \<Rightarrow> string"

definition Operation_payment :: "Sdk \<Rightarrow> string \<Rightarrow> Asset \<Rightarrow> string \<Rightarrow> thrown + Operation" where
  "Operation_payment sdk dest a amt =
     (case Operation_payment_rejects sdk dest a amt of
        Some e \<Rightarrow> Inl e
      | None \<Rightarrow> Inr (Payment dest a amt))"

definition Operation_changeTrust :: "Sdk \<Rightarrow> Asset \<Rightarrow> string option \<Rightarrow> thrown + Operation" where
  "Operation_changeTrust sdk a lim =
     (case Operation_changeTrust_rejects sdk a lim of
        Some e \<Rightarrow> Inl e
      | None \<Rightarrow> Inr (ChangeTrust a lim))"

definition Memo_text :: "Sdk \<Rightarrow> string \<Rightarrow> thrown + Memo" where
  "Memo_text sdk s = (case Memo_text_rejects sdk s of Some e \<Rightarrow> Inl e | None \<Rightarrow> Inr (MemoText s))"

text \<open>\<open>new TransactionBuilder(sourceAccount, {fee, networkPassphrase})\<close> and its methods.\<close>

definition new_TransactionBuilder :: "Account \<Rightarrow> string \<Rightarrow> string \<Rightarrow> Transaction" where
  "new_TransactionBuilder sourceAccount f passphrase =
     \<lparr>source = sourceAccount, fee = f, tx_networkPassphrase = passphrase, operations = [],
      tx_memo = None, timeout = None, signatures = []\<rparr>"

definition addOperation :: "Operation \<Rightarrow> Transaction \<Rightarrow> Transaction" where
  "addOperation operation b = b\<lparr>operations := operations b @ [operation]\<rparr>"

definition addMemo :: "Memo \<Rightarrow> Transaction \<Rightarrow> Transaction" where
  "addMemo m b = b\<lparr>tx_memo := Some m\<rparr>"

definition setTimeout :: "nat \<Rightarrow> Transaction \<Rightarrow> Transaction" where
  "setTimeout seconds b = b\<lparr>timeout := Some seconds\<rparr>"

definition build :: "Transaction \<Rightarrow> Transaction" where
  "build b = b"

text \<open>
  The effects of the services on their collaborators, in order: the calls made on the
  Horizon server, the writes of \<open>Keychain.setGenericPassword\<close> that succeeded (with the
  account list whose JSON text was stored), and the lines written by \<open>console.error\<close>.
  Every function of the services takes the effects so far and returns them extended.
\<close>

datatype ExternalCall =
  LoadAccountCall string
| SubmitCall Transaction
| KeychainSetCall "AccountData list"
| ConsoleErrorCall string thrown

section \<open>\<open>HorizonService\<close>\<close>

definition getNetworkPassphrase :: "NetworkConfig \<Rightarrow> string" where
  "getNetworkPassphrase cfg = networkPassphrase cfg"

definition HorizonService_loadAccount :: "Sdk \<Rightarrow> string \<Rightarrow> ExternalCall list \<Rightarrow> (thrown + Account) \<times> ExternalCall list" where
  "HorizonService_loadAccount sdk pk calls =
     (case server_loadAccount sdk pk of
        Inr account \<Rightarrow> (Inr account, calls @ [LoadAccountCall pk])
      | Inl error \<Rightarrow>
          (Inl (Error (''Error loading account: '' @ String_of error)), calls @ [LoadAccountCall pk]))"

definition HorizonService_submitTransaction :: "Sdk \<Rightarrow> Transaction \<Rightarrow> ExternalCall list \<Rightarrow> (thrown + JsObject) \<times> ExternalCall list" where
  "HorizonService_submitTransaction sdk transactionEnvelope calls =
     (case server_submitTransaction sdk transactionEnvelope of
        Inr result \<Rightarrow> (Inr result, calls @ [SubmitCall transactionEnvelope])
      | Inl error \<Rightarrow>
          (case error of
             Thrown shown (Some result_codes) \<Rightarrow>
               (Inl (Error (''Transaction failed: '' @
                      (case result_codes of
                         Some codes \<Rightarrow> JSON_stringify sdk codes
                       | None \<Rightarrow> ''undefined''))),
                calls @ [SubmitCall transactionEnvelope])
           | _ \<Rightarrow>
               (Inl (Error (''Error submitting transaction: '' @ String_of error)),
                calls @ [SubmitCall transactionEnvelope])))"

section \<open>\<open>TransactionService\<close>\<close>

definition createPaymentTransaction :: "Sdk \<Rightarrow> NetworkConfig \<Rightarrow> string \<Rightarrow> PaymentOptions \<Rightarrow> ExternalCall list \<Rightarrow> (thrown + Transaction) \<times> ExternalCall list" where
  "createPaymentTransaction sdk cfg sourcePublicKey options calls =
     (case
        (case HorizonService_loadAccount sdk sourcePublicKey calls of
           (Inl error, calls1) \<Rightarrow> (Inl error, calls1)
         | (Inr sourceAccount, calls1) \<Rightarrow>
             (let passphrase = getNetworkPassphrase cfg in
              case Operation_payment sdk (destination options) (asset options) (amount options) of
                Inl error \<Rightarrow> (Inl error, calls1)
              | Inr operation \<Rightarrow>
                  (let transaction =
                         addOperation operation
                           (new_TransactionBuilder sourceAccount ''100'' passphrase) in
                   if truthy (memo options)
                   then (case Memo_text sdk (the (memo options)) of
                           Inl error \<Rightarrow> (Inl error, calls1)
                         | Inr m \<Rightarrow> (Inr (build (setTimeout 30 (addMemo m transaction))), calls1))
                   else (Inr (build (setTimeout 30 transaction)), calls1))))
      of
        (Inl error, calls1) \<Rightarrow>
          (Inl (Error (''Error creating payment transaction: '' @ String_of error)), calls1)
      | (Inr transaction, calls1) \<Rightarrow> (Inr transaction, calls1))"

definition createTrustlineTransaction :: "Sdk \<Rightarrow> NetworkConfig \<Rightarrow> string \<Rightarrow> TrustlineOptions \<Rightarrow> ExternalCall list \<Rightarrow> (thrown + Transaction) \<times> ExternalCall list" where
  "createTrustlineTransaction sdk cfg sourcePublicKey options calls =
     (case
        (case HorizonService_loadAccount sdk sourcePublicKey calls of
           (Inl error, calls1) \<Rightarrow> (Inl error, calls1)
         | (Inr sourceAccount, calls1) \<Rightarrow>
             (let passphrase = getNetworkPassphrase cfg in
              case Operation_changeTrust sdk (trust_asset options) (limit options) of
                Inl error \<Rightarrow> (Inl error, calls1)
              | Inr operation \<Rightarrow>
                  (Inr (build (setTimeout 30
                          (addOperation operation
                             (new_TransactionBuilder sourceAccount ''100'' passphrase)))),
                   calls1)))
      of
        (Inl error, calls1) \<Rightarrow>
          (Inl (Error (''Error creating trustline transaction: '' @ String_of error)), calls1)
      | (Inr transaction, calls1) \<Rightarrow> (Inr transaction, calls1))"

definition signTransaction :: "Sdk \<Rightarrow> Transaction \<Rightarrow> string \<Rightarrow> thrown + Transaction" where
  "signTransaction sdk transaction secret =
     (case Keypair_fromSecret sdk secret of
        Inl error \<Rightarrow> Inl (Error (''Error signing transaction: '' @ String_of error))
      | Inr signer \<Rightarrow> Inr (transaction\<lparr>signatures := signatures transaction @ [signer]\<rparr>))"

definition submitTransaction :: "Sdk \<Rightarrow> Transaction \<Rightarrow> ExternalCall list \<Rightarrow> (thrown + JsObject) \<times> ExternalCall list" where
  "submitTransaction sdk transaction calls =
     (case HorizonService_submitTransaction sdk transaction calls of
        (Inl error, calls1) \<Rightarrow>
          (Inl (Error (''Error submitting transaction: '' @ String_of error)), calls1)
      | (Inr result, calls1) \<Rightarrow> (Inr result, calls1))"

definition sendPayment :: "Sdk \<Rightarrow> NetworkConfig \<Rightarrow> string \<Rightarrow> string \<Rightarrow> PaymentOptions \<Rightarrow> ExternalCall list \<Rightarrow> (thrown + JsObject) \<times> ExternalCall list" where
  "sendPayment sdk cfg sourcePublicKey secret options calls =
     (case
        (case createPaymentTransaction sdk cfg sourcePublicKey options calls of
           (Inl error, calls1) \<Rightarrow> (Inl error, calls1)
         | (Inr transaction, calls1) \<Rightarrow>
             (case signTransaction sdk transaction secret of
                Inl error \<Rightarrow> (Inl error, calls1)
              | Inr signedTransaction \<Rightarrow> submitTransaction sdk signedTransaction calls1))
      of
        (Inl error, calls2) \<Rightarrow> (Inl (Error (''Error sending payment: '' @ String_of error)), calls2)
      | (Inr result, calls2) \<Rightarrow> (Inr result, calls2))"

definition addTrustline :: "Sdk \<Rightarrow> NetworkConfig \<Rightarrow> string \<Rightarrow> string \<Rightarrow> TrustlineOptions \<Rightarrow> ExternalCall list \<Rightarrow> (thrown + JsObject) \<times> ExternalCall list" where
  "addTrustline sdk cfg sourcePublicKey secret options calls =
     (case
        (case createTrustlineTransaction sdk cfg sourcePublicKey options calls of
           (Inl error, calls1) \<Rightarrow> (Inl error, calls1)
         | (Inr transaction, calls1) \<Rightarrow>
             (case signTransaction sdk transaction secret of
                Inl error \<Rightarrow> (Inl error, calls1)
              | Inr signedTransaction \<Rightarrow> submitTransaction sdk signedTransaction calls1))
      of
        (Inl error, calls2) \<Rightarrow> (Inl (Error (''Error adding trustline: '' @ String_of error)), calls2)
      | (Inr result, calls2) \<Rightarrow> (Inr result, calls2))"

section \<open>\<open>KeyManager\<close>\<close>

text \<open>
  The key manager keeps the accounts as one JSON text in the keychain, under a fixed
  service name. The text in the keychain is the one the last successful
  \<open>setGenericPassword\<close> stored; \<open>JSON.parse\<close> of \<open>JSON.stringify\<close> gives the account list
  back. Whether a keychain call throws is a parameter.
\<close>

record Keychain =
  getGenericPassword_throws :: "thrown option"
  setGenericPassword_throws :: "thrown option"

fun keychain_writes :: "ExternalCall list \<Rightarrow> AccountData list list" where
  "keychain_writes [] = []"
| "keychain_writes (KeychainSetCall accounts # cs) = accounts # keychain_writes cs"
| "keychain_writes (LoadAccountCall pk # cs) = keychain_writes cs"
| "keychain_writes (SubmitCall tx # cs) = keychain_writes cs"
| "keychain_writes (ConsoleErrorCall line error # cs) = keychain_writes cs"

definition keychain_password :: "ExternalCall list \<Rightarrow> AccountData list option" where
  "keychain_password calls =
     (case rev (keychain_writes calls) of [] \<Rightarrow> None | accounts # earlier \<Rightarrow> Some accounts)"

definition getAccounts :: "Keychain \<Rightarrow> ExternalCall list \<Rightarrow> AccountData list \<times> ExternalCall list" where
  "getAccounts kc calls =
     (case getGenericPassword_throws kc of
        Some error \<Rightarrow> ([], calls @ [ConsoleErrorCall ''Error retrieving accounts:'' error])
      | None \<Rightarrow>
          (case keychain_password calls of
             Some accounts \<Rightarrow> (accounts, calls)
           | None \<Rightarrow> ([], calls)))"

text \<open>\<open>accounts.findIndex(acc => acc.id === id)\<close>, and the list after \<open>storeAccount\<close>'s update.\<close>

fun findIndex :: "string \<Rightarrow> AccountData list \<Rightarrow> nat option" where
  "findIndex i [] = None"
| "findIndex i (acc # accounts) =
     (if acct_id acc = i then Some 0 else map_option Suc (findIndex i accounts))"

definition storeAccount :: "Keychain \<Rightarrow> AccountData \<Rightarrow> ExternalCall list \<Rightarrow> bool \<times> ExternalCall list" where
  "storeAccount kc account calls =
     (case getAccounts kc calls of
        (accounts, calls1) \<Rightarrow>
          (let accounts1 =
                 (case findIndex (acct_id account) accounts of
                    Some existingIndex \<Rightarrow> accounts[existingIndex := account]
                  | None \<Rightarrow> accounts @ [account]) in
           case setGenericPassword_throws kc of
             Some error \<Rightarrow> (False, calls1 @ [ConsoleErrorCall ''Error storing account:'' error])
           | None \<Rightarrow> (True, calls1 @ [KeychainSetCall accounts1])))"

definition getAccount :: "Keychain \<Rightarrow> string \<Rightarrow> ExternalCall list \<Rightarrow> AccountData option \<times> ExternalCall list" where
  "getAccount kc i calls =
     (case getAccounts kc calls of
        (accounts, calls1) \<Rightarrow> (find (\<lambda>acc. acct_id acc = i) accounts, calls1))"

definition deleteAccount :: "Keychain \<Rightarrow> string \<Rightarrow> ExternalCall list \<Rightarrow> bool \<times> ExternalCall list" where
  "deleteAccount kc i calls =
     (case getAccounts kc calls of
        (accounts, calls1) \<Rightarrow>
          (let filteredAccounts = filter (\<lambda>acc. acct_id acc \<noteq> i) accounts in
           if length accounts = length filteredAccounts then (False, calls1)
           else (case setGenericPassword_throws kc of
                   Some error \<Rightarrow> (False, calls1 @ [ConsoleErrorCall ''Error deleting account:'' error])
                 | None \<Rightarrow> (True, calls1 @ [KeychainSetCall filteredAccounts]))))"

section \<open>\<open>StellarWallet\<close>\<close>

text \<open>
  The wallet owns the key manager and the services. Its account functions hand their
  arguments to the key manager, its \<open>sendPayment\<close> and \<open>addTrustline\<close> to the
  transaction service.
\<close>

definition StellarWallet_storeAccount :: "Keychain \<Rightarrow> AccountData \<Rightarrow> ExternalCall list \<Rightarrow> bool \<times> ExternalCall list" where
  "StellarWallet_storeAccount kc account calls = storeAccount kc account calls"

definition StellarWallet_getAccounts :: "Keychain \<Rightarrow> ExternalCall list \<Rightarrow> AccountData list \<times> ExternalCall list" where
  "StellarWallet_getAccounts kc calls = getAccounts kc calls"

definition StellarWallet_getAccount :: "Keychain \<Rightarrow> string \<Rightarrow> ExternalCall list \<Rightarrow> AccountData option \<times> ExternalCall list" where
  "StellarWallet_getAccount kc i calls = getAccount kc i calls"

definition StellarWallet_deleteAccount :: "Keychain \<Rightarrow> string \<Rightarrow> ExternalCall list \<Rightarrow> bool \<times> ExternalCall list" where
  "StellarWallet_deleteAccount kc i calls = deleteAccount kc i calls"

definition StellarWallet_sendPayment :: "Sdk \<Rightarrow> NetworkConfig \<Rightarrow> string \<Rightarrow> string \<Rightarrow> PaymentOptions \<Rightarrow> ExternalCall list \<Rightarrow> (thrown + JsObject) \<times> ExternalCall list" where
  "StellarWallet_sendPayment sdk cfg sourcePublicKey secret options calls =
     sendPayment sdk cfg sourcePublicKey secret options calls"

definition StellarWallet_addTrustline :: "Sdk \<Rightarrow> NetworkConfig \<Rightarrow> string \<Rightarrow> string \<Rightarrow> TrustlineOptions \<Rightarrow> ExternalCall list \<Rightarrow> (thrown + JsObject) \<times> ExternalCall list" where
  "StellarWallet_addTrustline sdk cfg sourcePublicKey secret options calls =
     addTrustline sdk cfg sourcePublicKey secret options calls"

text \<open>The transactions submitted to the server, read off the call log.\<close>

fun submitted :: "ExternalCall list \<Rightarrow> Transaction list" where
  "submitted [] = []"
| "submitted (LoadAccountCall pk # cs) = submitted cs"
| "submitted (SubmitCall tx # cs) = tx # submitted cs"
| "submitted (KeychainSetCall accounts # cs) = submitted cs"
| "submitted (ConsoleErrorCall line error # cs) = submitted cs"

text \<open>
  A call fails with an error of a named class: it throws an error object whose \<open>name\<close>
  is that class. This is how the specification's taxonomy (\<open>AccountNotFound\<close>,
  \<open>InvalidIntent\<close>, ...) would show in a thrown value.
\<close>

definition fails_with :: "string \<Rightarrow> thrown + 'a \<Rightarrow> bool" where
  "fails_with cls r = (case r of Inl e \<Rightarrow> error_name e = Some cls | Inr _ \<Rightarrow> False)"

subsection \<open>Inputs for the examples\<close>

text \<open>
  An SDK whose server knows every account (at sequence 5) and accepts every
  submission, that rejects no operation and no memo, and decodes every secret key to
  the key pair of \<open>GA\<close>; a test network; a payment of 10 native to \<open>GB\<close>.
\<close>

definition accepting_sdk :: Sdk where
  "accepting_sdk =
     \<lparr>server_loadAccount = (\<lambda>pk. Inr \<lparr>account_id = pk, sequence = ''5''\<rparr>),
      server_submitTransaction = (\<lambda>tx. Inr [(''successful'', JsBoolean True)]),
      Operation_payment_rejects = (\<lambda>dest a amt. None),
      Operation_changeTrust_rejects = (\<lambda>a lim. None),
      Memo_text_rejects = (\<lambda>s. None),
      Keypair_fromSecret = (\<lambda>s. Inr ''GA''),
      JSON_stringify = (\<lambda>codes. ''{}'')\<rparr>"

definition test_config :: NetworkConfig where
  "test_config =
     \<lparr>networkType = TESTNET, networkPassphrase = ''Test SDF Network ; September 2015'',
      horizonUrl = ''https://horizon-testnet.stellar.org''\<rparr>"

definition payment_10 :: PaymentOptions where
  "payment_10 = \<lparr>destination = ''GB'', amount = ''10'', asset = Native, memo = None\<rparr>"

definition trust_usd :: TrustlineOptions where
  "trust_usd = \<lparr>trust_asset = Issued ''USD'' ''GI'', limit = Some ''1000''\<rparr>"

text \<open>
  Variations: a server that knows no account; an SDK that rejects the amount and the
  limit \<open>-1\<close>; an SDK that rejects memo texts of more than 28 bytes; an SDK that decodes
  no secret key; a server that rejects every submission with the result code
  \<open>tx_bad_seq\<close>. And a keychain whose calls return, with the effects so far of a wallet
  that has stored the account \<open>GA\<close>.
\<close>

definition no_account_sdk :: Sdk where
  "no_account_sdk = accepting_sdk\<lparr>server_loadAccount := (\<lambda>pk. Inl (Thrown ''NotFoundError'' None))\<rparr>"

definition strict_sdk :: Sdk where
  "strict_sdk =
     accepting_sdk
       \<lparr>Operation_payment_rejects :=
          (\<lambda>dest a amt. if amt = ''-1'' then Some (Thrown ''Error: amount argument invalid'' None) else None),
        Operation_changeTrust_rejects :=
          (\<lambda>a lim. if lim = Some ''-1'' then Some (Thrown ''Error: limit argument invalid'' None) else None)\<rparr>"

definition no_key_sdk :: Sdk where
  "no_key_sdk = accepting_sdk\<lparr>Keypair_fromSecret := (\<lambda>s. Inl (Thrown ''Error: invalid encoded string'' None))\<rparr>"

definition memo_strict_sdk :: Sdk where
  "memo_strict_sdk =
     accepting_sdk
       \<lparr>Memo_text_rejects :=
          (\<lambda>s. if 28 < length s then Some (Thrown ''Error: Expects string, array or buffer, max 28 bytes'' None)
               else None)\<rparr>"

definition rejecting_sdk :: Sdk where
  "rejecting_sdk =
     accepting_sdk
       \<lparr>server_submitTransaction :=
          (\<lambda>tx. Inl (Thrown ''Error: Request failed with status code 400''
                         (Some (Some [(''transaction'', ''tx_bad_seq'')])))),
        JSON_stringify := (\<lambda>codes. concat (map (\<lambda>field. fst field @ '':'' @ snd field) codes))\<rparr>"

definition working_keychain :: Keychain where
  "working_keychain = \<lparr>getGenericPassword_throws = None, setGenericPassword_throws = None\<rparr>"

definition account_GA :: AccountData where
  "account_GA =
     \<lparr>acct_id = ''GA'', name = Some ''main'',
      keyPair = \<lparr>publicKey = ''GA'', secretKey = None\<rparr>, balances = None\<rparr>"

definition stored_GA :: "ExternalCall list" where
  "stored_GA = [KeychainSetCall [account_GA]]"

section \<open>Maps, sets and iteration\<close>

lemma call_listener_eq:
  "call_listener lb ev c st =
     (Inr (), st\<lparr>invoked := invoked st @ [(c, ev)],
                 console := console st @ listener_errors lb ev [c]\<rparr>)"
  by (cases "lb c ev") (simp_all add: call_listener_def listener_errors_def)

lemma listener_errors_Cons:
  "listener_errors lb ev (c # ls) = listener_errors lb ev [c] @ listener_errors lb ev ls"
  by (simp add: listener_errors_def)

lemma forEach_call_listener:
  "forEach (call_listener lb ev) ls st =
     (Inr (), st\<lparr>invoked := invoked st @ map (\<lambda>c. (c, ev)) ls,
                 console := console st @ listener_errors lb ev ls\<rparr>)"
proof (induction ls arbitrary: st)
  case Nil
  show ?case by (simp add: listener_errors_def)
next
  case (Cons c ls)
  let ?st1 = "st\<lparr>invoked := invoked st @ [(c, ev)],
                 console := console st @ listener_errors lb ev [c]\<rparr>"
  have "forEach (call_listener lb ev) (c # ls) st = forEach (call_listener lb ev) ls ?st1"
    by (simp add: call_listener_eq)
  also have "\<dots> = (Inr (), ?st1\<lparr>invoked := invoked ?st1 @ map (\<lambda>c. (c, ev)) ls,
                 console := console ?st1 @ listener_errors lb ev ls\<rparr>)"
    by (rule Cons.IH)
  finally show ?case
    by (simp add: listener_errors_Cons [of lb ev c ls])
qed

lemma emitEvent_eq:
  "emitEvent lb ev st =
     (Inr (), st\<lparr>invoked := invoked st @ map (\<lambda>c. (c, ev)) (registered st (ev_type ev)),
                 console := console st @ listener_errors lb ev (registered st (ev_type ev))\<rparr>)"
  by (simp add: emitEvent_def registered_def forEach_call_listener listener_errors_def split: option.splits)

lemma Map_has_get: "Map_has m k = (Map_get m k \<noteq> None)"
  by (simp add: Map_has_def Map_get_def)

lemma Map_get_Map_set: "Map_get (Map_set m k v) k' = (if k' = k then Some v else Map_get m k')"
  by (induction m) (auto simp: Map_get_def)

lemma Map_set_same: "Map_get m k = Some v \<Longrightarrow> Map_set m k v = m"
  by (induction m) (auto simp: Map_get_def split: if_splits)

lemma Map_set_Map_set: "Map_set (Map_set m k v) k w = Map_set m k w"
  by (induction m) auto

lemma registered_add:
  "registered (addEventListener t c st) t' =
     (if t' = t then Set_add (registered st t) c else registered st t')"
  by (auto simp: registered_def addEventListener_def Map_has_get Map_get_Map_set Let_def Set_add_def split: option.splits)

lemma registered_remove:
  "registered (removeEventListener t c st) t' =
     (if t' = t then Set_delete (registered st t) c else registered st t')"
  by (auto simp: registered_def removeEventListener_def Map_has_get Map_get_Map_set Let_def Set_delete_def split: option.splits)

lemma addEventListener_twice:
  "addEventListener t c (addEventListener t c st) = addEventListener t c st"
  by (auto simp: addEventListener_def Map_has_get Map_get_Map_set Let_def Map_set_Map_set Map_set_same Set_add_def split: option.splits)

section \<open>Payment classification\<close>

lemma strict_eq_string_iff: "strict_eq_string v s = (v = JsString s)"
  by (cases v) auto

text \<open>
  Claim C4. The event the payments handler of a subscription for \<open>accountId\<close> emits for
  a payload has type \<open>PAYMENT_RECEIVED\<close> exactly when the payload's \<open>to\<close> property is
  the string \<open>accountId\<close>, and \<open>PAYMENT_SENT\<close> for every other value of \<open>to\<close> (another
  string, a value that is no string, no \<open>to\<close> at all). The payload is passed on as it
  came, and that event is what every listener registered for its type is called with.
\<close>

theorem payment_classification:
  "(ev_type (payment_event accountId paymentData) = PAYMENT_RECEIVED)
      = (get_prop paymentData ''to'' = JsString accountId)
   \<and> (ev_type (payment_event accountId paymentData) = PAYMENT_SENT)
      = (get_prop paymentData ''to'' \<noteq> JsString accountId)
   \<and> payload (payment_event accountId paymentData) = paymentData
   \<and> fst (payments_onmessage lb accountId paymentData st) = Inr ()
   \<and> invoked (snd (payments_onmessage lb accountId paymentData st)) =
       invoked st @ map (\<lambda>c. (c, payment_event accountId paymentData))
         (registered st (ev_type (payment_event accountId paymentData)))"
  by (simp add: payment_event_def payments_onmessage_def emitEvent_eq strict_eq_string_iff)

text \<open>An incoming payment, an outgoing one, and a record without a \<open>to\<close> property.\<close>

theorem payment_classification_witness:
  "ev_type (payment_event ''GA'' [(''from'', JsString ''GB''), (''to'', JsString ''GA'')]) = PAYMENT_RECEIVED
   \<and> ev_type (payment_event ''GA'' [(''from'', JsString ''GA''), (''to'', JsString ''GB'')]) = PAYMENT_SENT
   \<and> ev_type (payment_event ''GA'' [(''account'', JsString ''GA'')]) = PAYMENT_SENT"
  using payment_classification [of "''GA''" "[(''from'', JsString ''GB''), (''to'', JsString ''GA'')]"]
        payment_classification [of "''GA''" "[(''from'', JsString ''GA''), (''to'', JsString ''GB'')]"]
        payment_classification [of "''GA''" "[(''account'', JsString ''GA'')]"]
  by (simp add: get_prop_def)

section \<open>Fan-out to listeners\<close>

lemma addEventListener_frame:
  "invoked (addEventListener t c st) = invoked st"
  "console (addEventListener t c st) = console st"
  "closeCallbacks (addEventListener t c st) = closeCallbacks st"
  "streams (addEventListener t c st) = streams st"
  "transportCalls (addEventListener t c st) = transportCalls st"
  by (simp_all add: addEventListener_def Let_def split: option.splits)

lemma new_EventService_fields:
  "invoked new_EventService = []"
  "console new_EventService = []"
  "closeCallbacks new_EventService = []"
  "streams new_EventService = []"
  "transportCalls new_EventService = []"
  by (simp_all add: new_EventService_def)

lemma registered_new: "registered new_EventService t = []"
  by (simp add: registered_def new_EventService_def Map_get_def)

text \<open>
  Claim C7. Whatever the listeners do, \<open>emitEvent\<close> returns normally: nothing a listener
  throws reaches the stream that emitted the event. Every listener registered for the
  event's class is called once with that same event, in registration order, also after
  one of them has thrown; each exception is written to the console.
\<close>

theorem emitEvent_isolates_listeners:
  "fst (emitEvent lb ev st) = Inr ()
   \<and> invoked (snd (emitEvent lb ev st)) = invoked st @ map (\<lambda>c. (c, ev)) (registered st (ev_type ev))
   \<and> console (snd (emitEvent lb ev st)) = console st @ listener_errors lb ev (registered st (ev_type ev))
   \<and> (\<forall>c \<in> set (registered st (ev_type ev)). (c, ev) \<in> set (invoked (snd (emitEvent lb ev st))))"
  by (simp add: emitEvent_eq)

text \<open>Two listeners for one class, the first of them throws: the second is still called.\<close>

theorem emitEvent_isolates_listeners_witness:
  "fst (emitEvent (\<lambda>c ev. if c = 1 then Some (Thrown ''boom'' None) else None)
          \<lparr>ev_type = ACCOUNT_UPDATED, payload = []\<rparr>
          (addEventListener ACCOUNT_UPDATED 2 (addEventListener ACCOUNT_UPDATED 1 new_EventService))) = Inr ()
   \<and> (2, \<lparr>ev_type = ACCOUNT_UPDATED, payload = []\<rparr>) \<in> set (invoked (snd
        (emitEvent (\<lambda>c ev. if c = 1 then Some (Thrown ''boom'' None) else None)
          \<lparr>ev_type = ACCOUNT_UPDATED, payload = []\<rparr>
          (addEventListener ACCOUNT_UPDATED 2 (addEventListener ACCOUNT_UPDATED 1 new_EventService)))))
   \<and> console (snd
        (emitEvent (\<lambda>c ev. if c = 1 then Some (Thrown ''boom'' None) else None)
          \<lparr>ev_type = ACCOUNT_UPDATED, payload = []\<rparr>
          (addEventListener ACCOUNT_UPDATED 2 (addEventListener ACCOUNT_UPDATED 1 new_EventService))))
      = [(''Error in event listener for ACCOUNT_UPDATED:'', Thrown ''boom'' None)]"
  using emitEvent_isolates_listeners
    [of "\<lambda>c ev. if c = 1 then Some (Thrown ''boom'' None) else None"
        "\<lparr>ev_type = ACCOUNT_UPDATED, payload = []\<rparr>"
        "addEventListener ACCOUNT_UPDATED 2 (addEventListener ACCOUNT_UPDATED 1 new_EventService)"]
  by (simp add: registered_add registered_new Set_add_def listener_errors_def
        addEventListener_frame new_EventService_fields)

section \<open>Listener registration\<close>

lemma count_list_pair: "count_list (map (\<lambda>c. (c, ev)) ls) (c, ev) = count_list ls c"
  by (induction ls) auto

lemma distinct_count_list_member: "distinct ls \<Longrightarrow> c \<in> set ls \<Longrightarrow> count_list ls c = 1"
  by (induction ls) auto

lemma distinct_Set_add: "distinct s \<Longrightarrow> distinct (Set_add s x)"
  by (simp add: Set_add_def)

lemma Set_add_member: "x \<in> set (Set_add s x)"
  by (simp add: Set_add_def)

lemma Set_delete_not_member: "distinct s \<Longrightarrow> x \<notin> set (Set_delete s x)"
  by (simp add: Set_delete_def)

text \<open>The constructor and both registration functions keep every listener set free of duplicates.\<close>

lemma distinct_registered:
  "distinct (registered new_EventService t')"
  "distinct (registered st t') \<Longrightarrow> distinct (registered (addEventListener t c st) t')"
  "distinct (registered st t') \<Longrightarrow> distinct (registered (removeEventListener t c st) t')"
  by (auto simp: registered_new registered_add registered_remove Set_delete_def Set_add_def)

text \<open>
  Claim C10. Registering the same callback twice for one event class leaves the service
  as registering it once does; an event of that class then calls the callback once; and
  one \<open>removeEventListener\<close> leaves the callback unregistered. The listeners of a class
  are a \<open>Set\<close>: the list that stands for it has no member twice.
\<close>

theorem addEventListener_twice_is_once:
  assumes "distinct (registered st t)"
  shows "addEventListener t c (addEventListener t c st) = addEventListener t c st
   \<and> (ev_type ev = t \<longrightarrow>
        count_list (invoked (snd (emitEvent lb ev (addEventListener t c (addEventListener t c st))))) (c, ev)
          = count_list (invoked st) (c, ev) + 1)
   \<and> c \<notin> set (registered (removeEventListener t c (addEventListener t c (addEventListener t c st))) t)"
proof -
  let ?st1 = "addEventListener t c st"
  have twice: "addEventListener t c ?st1 = ?st1"
    by (rule addEventListener_twice)
  have reg: "registered ?st1 t = Set_add (registered st t) c"
    by (simp add: registered_add)
  have d: "distinct (registered ?st1 t)"
    using assms by (simp add: reg distinct_Set_add)
  have inv_same: "invoked ?st1 = invoked st"
    by (simp add: addEventListener_def Let_def split: option.splits)
  have once: "count_list (invoked (snd (emitEvent lb ev ?st1))) (c, ev) = count_list (invoked st) (c, ev) + 1"
    if "ev_type ev = t" for lb ev
    using that d by (simp add: emitEvent_eq inv_same count_list_pair distinct_count_list_member reg Set_add_member)
  have gone: "c \<notin> set (registered (removeEventListener t c ?st1) t)"
    using d by (simp add: registered_remove Set_delete_not_member)
  show ?thesis
    using once gone by (simp add: twice)
qed

theorem addEventListener_twice_is_once_witness:
  "distinct (registered new_EventService PAYMENT_SENT)
   \<and> addEventListener PAYMENT_SENT 7 (addEventListener PAYMENT_SENT 7 new_EventService)
       = addEventListener PAYMENT_SENT 7 new_EventService
   \<and> count_list (invoked (snd (emitEvent (\<lambda>c ev. None) \<lparr>ev_type = PAYMENT_SENT, payload = []\<rparr>
        (addEventListener PAYMENT_SENT 7 (addEventListener PAYMENT_SENT 7 new_EventService)))))
        (7, \<lparr>ev_type = PAYMENT_SENT, payload = []\<rparr>) = 1
   \<and> 7 \<notin> set (registered (removeEventListener PAYMENT_SENT 7
        (addEventListener PAYMENT_SENT 7 (addEventListener PAYMENT_SENT 7 new_EventService))) PAYMENT_SENT)"
proof -
  have h: "distinct (registered new_EventService PAYMENT_SENT)"
    by (simp add: registered_new)
  show ?thesis
    using h addEventListener_twice_is_once [OF h, where c = 7 and lb = "\<lambda>c ev. None"
      and ev = "\<lparr>ev_type = PAYMENT_SENT, payload = []\<rparr>"]
    by (auto simp: new_EventService_fields)
qed

section \<open>Cancelling subscriptions\<close>

lemma Map_get_Map_delete: "Map_get (Map_delete m k) k' = (if k' = k then None else Map_get m k')"
  by (induction m) (auto simp: Map_get_def Map_delete_def)



lemma call_close_returns:
  "cb h = None \<Longrightarrow> call_close cb h st =
     (Inr (), st\<lparr>transportCalls := transportCalls st @ [CloseCalled h],
                 streams := mark_closed h (streams st)\<rparr>)"
  by (simp add: call_close_def)

lemma call_close_throws:
  "cb h = Some e \<Longrightarrow> call_close cb h st =
     (Inl e, st\<lparr>transportCalls := transportCalls st @ [CloseCalled h]\<rparr>)"
  by (simp add: call_close_def)

lemma unsubscribe_unknown:
  "Map_get (closeCallbacks st) sid = None \<Longrightarrow> unsubscribe cb sid st = (Inr False, st)"
  by (simp add: unsubscribe_def)

lemma unsubscribe_returns:
  "Map_get (closeCallbacks st) sid = Some h \<Longrightarrow> cb h = None \<Longrightarrow>
   unsubscribe cb sid st =
     (Inr True, st\<lparr>transportCalls := transportCalls st @ [CloseCalled h],
                   streams := mark_closed h (streams st),
                   closeCallbacks := Map_delete (closeCallbacks st) sid\<rparr>)"
  by (simp add: unsubscribe_def call_close_returns)

lemma unsubscribe_throws:
  "Map_get (closeCallbacks st) sid = Some h \<Longrightarrow> cb h = Some e \<Longrightarrow>
   unsubscribe cb sid st = (Inl e, st\<lparr>transportCalls := transportCalls st @ [CloseCalled h]\<rparr>)"
  by (simp add: unsubscribe_def call_close_throws)

lemma forEach_close_all_return:
  "list_all (\<lambda>entry. cb (snd entry) = None) es \<Longrightarrow>
   forEach (\<lambda>entry. call_close cb (snd entry)) es st =
     (Inr (), st\<lparr>transportCalls := transportCalls st @ map (\<lambda>entry. CloseCalled (snd entry)) es,
                 streams := fold mark_closed (map snd es) (streams st)\<rparr>)"
proof (induction es arbitrary: st)
  case Nil
  show ?case by simp
next
  case (Cons x es)
  from Cons.prems have x: "cb (snd x) = None" and es: "list_all (\<lambda>entry. cb (snd entry) = None) es"
    by simp_all
  show ?case
    by (simp add: call_close_returns [of cb "snd x", OF x] Cons.IH [OF es])
qed

lemma forEach_close_first_throw:
  "list_all (\<lambda>entry. cb (snd entry) = None) pre \<Longrightarrow> cb h = Some e \<Longrightarrow>
   forEach (\<lambda>entry. call_close cb (snd entry)) (pre @ (k, h) # post) st =
     (Inl e, st\<lparr>transportCalls := transportCalls st @ map (\<lambda>entry. CloseCalled (snd entry)) (pre @ [(k, h)]),
                 streams := fold mark_closed (map snd pre) (streams st)\<rparr>)"
proof (induction pre arbitrary: st)
  case Nil
  then show ?case by (simp add: call_close_throws)
next
  case (Cons x pre)
  from Cons.prems have x: "cb (snd x) = None" and pre: "list_all (\<lambda>entry. cb (snd entry) = None) pre"
    by simp_all
  show ?case
    by (simp add: call_close_returns [of cb "snd x", OF x] Cons.IH [OF pre Cons.prems(2)])
qed

lemma unsubscribeAll_all_return:
  "list_all (\<lambda>entry. cb (snd entry) = None) (closeCallbacks st) \<Longrightarrow>
   unsubscribeAll cb st =
     (Inr (), st\<lparr>transportCalls := transportCalls st @ map (\<lambda>entry. CloseCalled (snd entry)) (closeCallbacks st),
                 streams := fold mark_closed (map snd (closeCallbacks st)) (streams st),
                 closeCallbacks := []\<rparr>)"
  by (simp add: unsubscribeAll_def forEach_close_all_return)

lemma unsubscribeAll_first_throw:
  "closeCallbacks st = pre @ (k, h) # post \<Longrightarrow>
   list_all (\<lambda>entry. cb (snd entry) = None) pre \<Longrightarrow> cb h = Some e \<Longrightarrow>
   unsubscribeAll cb st =
     (Inl e, st\<lparr>transportCalls := transportCalls st @ map (\<lambda>entry. CloseCalled (snd entry)) (pre @ [(k, h)]),
                 streams := fold mark_closed (map snd pre) (streams st)\<rparr>)"
  by (simp add: unsubscribeAll_def forEach_close_first_throw)







text \<open>
  Claim C2, as the code has it. \<open>unsubscribeAll\<close> calls the stored close functions in
  insertion order. When every one of them returns, each has been called once, the call
  returns and the map is empty. When one throws, its exception leaves \<open>unsubscribeAll\<close>:
  the close functions stored after it are not called and the map is left as it was.
  In neither case is anything written to the console: nothing in \<open>unsubscribeAll\<close>
  catches or logs what a close function throws.
\<close>

theorem unsubscribeAll_teardown:
  "(list_all (\<lambda>entry. cb (snd entry) = None) (closeCallbacks st) \<longrightarrow>
      fst (unsubscribeAll cb st) = Inr ()
    \<and> closeCallbacks (snd (unsubscribeAll cb st)) = []
    \<and> transportCalls (snd (unsubscribeAll cb st)) =
        transportCalls st @ map (\<lambda>entry. CloseCalled (snd entry)) (closeCallbacks st)
    \<and> console (snd (unsubscribeAll cb st)) = console st)
   \<and> (closeCallbacks st = pre @ (k, h) # post
        \<and> list_all (\<lambda>entry. cb (snd entry) = None) pre \<and> cb h = Some e \<longrightarrow>
      fst (unsubscribeAll cb st) = Inl e
    \<and> closeCallbacks (snd (unsubscribeAll cb st)) = closeCallbacks st
    \<and> transportCalls (snd (unsubscribeAll cb st)) =
        transportCalls st @ map (\<lambda>entry. CloseCalled (snd entry)) (pre @ [(k, h)])
    \<and> console (snd (unsubscribeAll cb st)) = console st)"
proof (intro conjI impI)
  assume a: "list_all (\<lambda>entry. cb (snd entry) = None) (closeCallbacks st)"
  note u = unsubscribeAll_all_return [where cb = cb, OF a]
  show "fst (unsubscribeAll cb st) = Inr ()" by (simp add: u)
  show "closeCallbacks (snd (unsubscribeAll cb st)) = []" by (simp add: u)
  show "transportCalls (snd (unsubscribeAll cb st)) =
        transportCalls st @ map (\<lambda>entry. CloseCalled (snd entry)) (closeCallbacks st)"
    by (simp add: u)
  show "console (snd (unsubscribeAll cb st)) = console st" by (simp add: u)
next
  assume a: "closeCallbacks st = pre @ (k, h) # post
        \<and> list_all (\<lambda>entry. cb (snd entry) = None) pre \<and> cb h = Some e"
  then have a1: "closeCallbacks st = pre @ (k, h) # post"
    and a2: "list_all (\<lambda>entry. cb (snd entry) = None) pre" and a3: "cb h = Some e"
    by simp_all
  note u = unsubscribeAll_first_throw [where cb = cb, OF a1 a2 a3]
  show "fst (unsubscribeAll cb st) = Inl e" by (simp add: u)
  show "closeCallbacks (snd (unsubscribeAll cb st)) = closeCallbacks st" by (simp add: u)
  show "transportCalls (snd (unsubscribeAll cb st)) =
        transportCalls st @ map (\<lambda>entry. CloseCalled (snd entry)) (pre @ [(k, h)])"
    by (simp add: u)
  show "console (snd (unsubscribeAll cb st)) = console st" by (simp add: u)
qed

text \<open>
  The claim as the specification states it fails: two subscriptions, the close function
  of the first throws. The exception escapes, the second close function is never
  called, both entries are still in the map, and nothing is logged.
\<close>

theorem unsubscribeAll_throwing_close_counterexample:
  "fst (unsubscribeAll (\<lambda>h. if h = 0 then Some (Thrown ''close failed'' None) else None)
      \<lparr>listeners = [], closeCallbacks = [(''account-GA'', 0), (''payments-GA'', 1)],
       streams = [(AccountsStream, ''GA'', True), (PaymentsStream, ''GA'', True)],
       transportCalls = [StreamOpened AccountsStream ''GA'' 0, StreamOpened PaymentsStream ''GA'' 1],
       invoked = [], console = []\<rparr>) = Inl (Thrown ''close failed'' None)
   \<and> closeCallbacks (snd (unsubscribeAll (\<lambda>h. if h = 0 then Some (Thrown ''close failed'' None) else None)
      \<lparr>listeners = [], closeCallbacks = [(''account-GA'', 0), (''payments-GA'', 1)],
       streams = [(AccountsStream, ''GA'', True), (PaymentsStream, ''GA'', True)],
       transportCalls = [StreamOpened AccountsStream ''GA'' 0, StreamOpened PaymentsStream ''GA'' 1],
       invoked = [], console = []\<rparr>)) = [(''account-GA'', 0), (''payments-GA'', 1)]
   \<and> CloseCalled 1 \<notin> set (transportCalls (snd (unsubscribeAll
      (\<lambda>h. if h = 0 then Some (Thrown ''close failed'' None) else None)
      \<lparr>listeners = [], closeCallbacks = [(''account-GA'', 0), (''payments-GA'', 1)],
       streams = [(AccountsStream, ''GA'', True), (PaymentsStream, ''GA'', True)],
       transportCalls = [StreamOpened AccountsStream ''GA'' 0, StreamOpened PaymentsStream ''GA'' 1],
       invoked = [], console = []\<rparr>)))
   \<and> console (snd (unsubscribeAll (\<lambda>h. if h = 0 then Some (Thrown ''close failed'' None) else None)
      \<lparr>listeners = [], closeCallbacks = [(''account-GA'', 0), (''payments-GA'', 1)],
       streams = [(AccountsStream, ''GA'', True), (PaymentsStream, ''GA'', True)],
       transportCalls = [StreamOpened AccountsStream ''GA'' 0, StreamOpened PaymentsStream ''GA'' 1],
       invoked = [], console = []\<rparr>)) = []"
  by (simp add: unsubscribeAll_def call_close_def)

text \<open>Both cases of the teardown: all close functions return; the second of three throws.\<close>

theorem unsubscribeAll_teardown_witness:
  "list_all (\<lambda>entry. (\<lambda>h. None :: thrown option) (snd entry) = None) [(''account-GA'', 0::nat), (''payments-GA'', 1)]
   \<and> fst (unsubscribeAll (\<lambda>h. None)
      \<lparr>listeners = [], closeCallbacks = [(''account-GA'', 0), (''payments-GA'', 1)],
       streams = [(AccountsStream, ''GA'', True), (PaymentsStream, ''GA'', True)],
       transportCalls = [], invoked = [], console = []\<rparr>) = Inr ()
   \<and> closeCallbacks (snd (unsubscribeAll (\<lambda>h. None)
      \<lparr>listeners = [], closeCallbacks = [(''account-GA'', 0), (''payments-GA'', 1)],
       streams = [(AccountsStream, ''GA'', True), (PaymentsStream, ''GA'', True)],
       transportCalls = [], invoked = [], console = []\<rparr>)) = []
   \<and> transportCalls (snd (unsubscribeAll (\<lambda>h. None)
      \<lparr>listeners = [], closeCallbacks = [(''account-GA'', 0), (''payments-GA'', 1)],
       streams = [(AccountsStream, ''GA'', True), (PaymentsStream, ''GA'', True)],
       transportCalls = [], invoked = [], console = []\<rparr>)) = [CloseCalled 0, CloseCalled 1]
   \<and> fst (unsubscribeAll (\<lambda>h. if h = 1 then Some (Thrown ''close failed'' None) else None)
      \<lparr>listeners = [], closeCallbacks = [(''account-GA'', 0), (''payments-GA'', 1), (''account-GB'', 2)],
       streams = [(AccountsStream, ''GA'', True), (PaymentsStream, ''GA'', True), (AccountsStream, ''GB'', True)],
       transportCalls = [], invoked = [], console = []\<rparr>) = Inl (Thrown ''close failed'' None)
   \<and> closeCallbacks (snd (unsubscribeAll (\<lambda>h. if h = 1 then Some (Thrown ''close failed'' None) else None)
      \<lparr>listeners = [], closeCallbacks = [(''account-GA'', 0), (''payments-GA'', 1), (''account-GB'', 2)],
       streams = [(AccountsStream, ''GA'', True), (PaymentsStream, ''GA'', True), (AccountsStream, ''GB'', True)],
       transportCalls = [], invoked = [], console = []\<rparr>))
      = [(''account-GA'', 0), (''payments-GA'', 1), (''account-GB'', 2)]
   \<and> transportCalls (snd (unsubscribeAll (\<lambda>h. if h = 1 then Some (Thrown ''close failed'' None) else None)
      \<lparr>listeners = [], closeCallbacks = [(''account-GA'', 0), (''payments-GA'', 1), (''account-GB'', 2)],
       streams = [(AccountsStream, ''GA'', True), (PaymentsStream, ''GA'', True), (AccountsStream, ''GB'', True)],
       transportCalls = [], invoked = [], console = []\<rparr>)) = [CloseCalled 0, CloseCalled 1]
   \<and> console (snd (unsubscribeAll (\<lambda>h. if h = 1 then Some (Thrown ''close failed'' None) else None)
      \<lparr>listeners = [], closeCallbacks = [(''account-GA'', 0), (''payments-GA'', 1), (''account-GB'', 2)],
       streams = [(AccountsStream, ''GA'', True), (PaymentsStream, ''GA'', True), (AccountsStream, ''GB'', True)],
       transportCalls = [], invoked = [], console = []\<rparr>)) = []"
  using unsubscribeAll_teardown [of "\<lambda>h. None"
      "\<lparr>listeners = [], closeCallbacks = [(''account-GA'', 0), (''payments-GA'', 1)],
       streams = [(AccountsStream, ''GA'', True), (PaymentsStream, ''GA'', True)],
       transportCalls = [], invoked = [], console = []\<rparr>" "[]" "''k''" 0 "[]" "Error []"]
    unsubscribeAll_teardown [of "\<lambda>h. if h = 1 then Some (Thrown ''close failed'' None) else None"
      "\<lparr>listeners = [], closeCallbacks = [(''account-GA'', 0), (''payments-GA'', 1), (''account-GB'', 2)],
       streams = [(AccountsStream, ''GA'', True), (PaymentsStream, ''GA'', True), (AccountsStream, ''GB'', True)],
       transportCalls = [], invoked = [], console = []\<rparr>"
      "[(''account-GA'', 0)]" "''payments-GA''" 1 "[(''account-GB'', 2)]" "Thrown ''close failed'' None"]
  by simp

section \<open>At most one open stream per subscription key\<close>

lemma registry_inv_iff:
  "registry_inv st \<longleftrightarrow>
     (\<forall>h < length (streams st). \<forall>k a. streams st ! h = (k, a, True) \<longrightarrow>
        Map_get (closeCallbacks st) (subscription_key k a) = Some h)"
  by (auto simp: registry_inv_def list_all_iff split: prod.splits)

lemma length_mark_closed: "length (mark_closed h ss) = length ss"
  by (simp add: mark_closed_def)

lemma mark_closed_open:
  "i < length ss \<Longrightarrow> mark_closed h ss ! i = (k, a, True) \<Longrightarrow> ss ! i = (k, a, True) \<and> i \<noteq> h"
  by (auto simp: mark_closed_def nth_list_update split: if_splits)













text \<open>Every operation of the service keeps the invariant, whatever the close functions do.\<close>

lemma registry_inv_unsubscribe:
  assumes "registry_inv st"
  shows "registry_inv (snd (unsubscribe cb sid st))"
proof (cases "Map_get (closeCallbacks st) sid")
  case None
  with assms show ?thesis by (simp add: unsubscribe_unknown)
next
  case (Some h)
  show ?thesis
  proof (cases "cb h")
    case (Some e)
    with assms \<open>Map_get (closeCallbacks st) sid = Some h\<close> show ?thesis
      by (simp add: unsubscribe_throws [where cb = cb] registry_inv_iff)
  next
    case None
    note u = unsubscribe_returns [where cb = cb, OF \<open>Map_get (closeCallbacks st) sid = Some h\<close> None]
    show ?thesis
      unfolding registry_inv_iff
    proof (intro allI impI)
      fix i k a
      assume i: "i < length (streams (snd (unsubscribe cb sid st)))"
        and o: "streams (snd (unsubscribe cb sid st)) ! i = (k, a, True)"
      from i have i': "i < length (streams st)" by (simp add: u length_mark_closed)
      from o have "mark_closed h (streams st) ! i = (k, a, True)" by (simp add: u)
      from mark_closed_open [OF i' this] have o': "streams st ! i = (k, a, True)" and ne: "i \<noteq> h"
        by simp_all
      from assms i' o' have g: "Map_get (closeCallbacks st) (subscription_key k a) = Some i"
        by (auto simp: registry_inv_iff)
      with ne \<open>Map_get (closeCallbacks st) sid = Some h\<close> have "subscription_key k a \<noteq> sid" by auto
      with g show "Map_get (closeCallbacks (snd (unsubscribe cb sid st))) (subscription_key k a) = Some i"
        by (simp add: u Map_get_Map_delete)
    qed
  qed
qed

lemma length_fold_mark_closed: "length (fold mark_closed hs ss) = length ss"
  by (induction hs arbitrary: ss) (simp_all add: length_mark_closed)

lemma fold_mark_closed_open:
  "i < length ss \<Longrightarrow> fold mark_closed hs ss ! i = (k, a, True) \<Longrightarrow> ss ! i = (k, a, True) \<and> i \<notin> set hs"
proof (induction hs arbitrary: ss)
  case Nil
  then show ?case by simp
next
  case (Cons h hs)
  from Cons.prems have "i < length (mark_closed h ss)" by (simp add: length_mark_closed)
  from Cons.IH [OF this] Cons.prems(2)
  have m: "mark_closed h ss ! i = (k, a, True)" and n: "i \<notin> set hs" by simp_all
  from mark_closed_open [OF Cons.prems(1) m] n show ?case by simp
qed

lemma Map_get_in_values: "Map_get m k = Some v \<Longrightarrow> v \<in> set (map snd m)"
  by (auto simp: Map_get_def dest: map_of_SomeD intro: rev_image_eqI)

lemma registry_inv_unsubscribeAll:
  assumes "registry_inv st"
  shows "registry_inv (snd (unsubscribeAll cb st))"
proof (cases "list_all (\<lambda>entry. cb (snd entry) = None) (closeCallbacks st)")
  case True
  note u = unsubscribeAll_all_return [where cb = cb, OF True]
  show ?thesis
    unfolding registry_inv_iff
  proof (intro allI impI)
    fix i k a
    assume i: "i < length (streams (snd (unsubscribeAll cb st)))"
      and o: "streams (snd (unsubscribeAll cb st)) ! i = (k, a, True)"
    from i have i': "i < length (streams st)" by (simp add: u length_fold_mark_closed)
    from o have "fold mark_closed (map snd (closeCallbacks st)) (streams st) ! i = (k, a, True)"
      by (simp add: u)
    from fold_mark_closed_open [OF i' this]
    have o': "streams st ! i = (k, a, True)" and n: "i \<notin> set (map snd (closeCallbacks st))"
      by simp_all
    from assms i' o' have "Map_get (closeCallbacks st) (subscription_key k a) = Some i"
      by (auto simp: registry_inv_iff)
    from Map_get_in_values [OF this] n
    show "Map_get (closeCallbacks (snd (unsubscribeAll cb st))) (subscription_key k a) = Some i"
      by simp
  qed
next
  case False
  then obtain pre k0 h0 post where split: "closeCallbacks st = pre @ (k0, h0) # post"
    and pre: "list_all (\<lambda>entry. cb (snd entry) = None) pre" and thr: "cb h0 \<noteq> None"
    by (auto simp: list_all_iff split_list_first_prop_iff)
  from thr obtain e where e: "cb h0 = Some e" by auto
  note u = unsubscribeAll_first_throw [where cb = cb, OF split pre e]
  show ?thesis
    unfolding registry_inv_iff
  proof (intro allI impI)
    fix i k a
    assume i: "i < length (streams (snd (unsubscribeAll cb st)))"
      and o: "streams (snd (unsubscribeAll cb st)) ! i = (k, a, True)"
    from i have i': "i < length (streams st)" by (simp add: u length_fold_mark_closed)
    from o have "fold mark_closed (map snd pre) (streams st) ! i = (k, a, True)"
      by (simp add: u)
    from fold_mark_closed_open [OF i' this] have o': "streams st ! i = (k, a, True)"
      by simp
    from assms i' o' have "Map_get (closeCallbacks st) (subscription_key k a) = Some i"
      by (auto simp: registry_inv_iff)
    then show "Map_get (closeCallbacks (snd (unsubscribeAll cb st))) (subscription_key k a) = Some i"
      by (simp add: u)
  qed
qed


lemma registry_inv_listeners:
  "registry_inv (addEventListener t c st) = registry_inv st"
  "registry_inv (removeEventListener t c st) = registry_inv st"
  "registry_inv (snd (emitEvent lb ev st)) = registry_inv st"
  by (simp_all add: registry_inv_def addEventListener_def removeEventListener_def emitEvent_eq Let_def
        split: option.splits)




section \<open>Building a transaction\<close>

lemma createPaymentTransaction_calls:
  "snd (createPaymentTransaction sdk cfg src opts calls) = calls @ [LoadAccountCall src]"
  by (simp add: createPaymentTransaction_def HorizonService_loadAccount_def Let_def
        split: sum.splits prod.splits)

lemma createTrustlineTransaction_calls:
  "snd (createTrustlineTransaction sdk cfg src opts calls) = calls @ [LoadAccountCall src]"
  by (simp add: createTrustlineTransaction_def HorizonService_loadAccount_def Let_def
        split: sum.splits prod.splits)

lemma createPaymentTransaction_load_fails:
  "server_loadAccount sdk src = Inl e \<Longrightarrow>
   fst (createPaymentTransaction sdk cfg src opts calls) =
     Inl (Error (''Error creating payment transaction: Error: Error loading account: '' @ String_of e))"
  by (simp add: createPaymentTransaction_def HorizonService_loadAccount_def)

lemma createTrustlineTransaction_load_fails:
  "server_loadAccount sdk src = Inl e \<Longrightarrow>
   fst (createTrustlineTransaction sdk cfg src opts calls) =
     Inl (Error (''Error creating trustline transaction: Error: Error loading account: '' @ String_of e))"
  by (simp add: createTrustlineTransaction_def HorizonService_loadAccount_def)

lemma createPaymentTransaction_operation_rejected:
  "server_loadAccount sdk src = Inr acct \<Longrightarrow>
   Operation_payment_rejects sdk (destination opts) (asset opts) (amount opts) = Some e \<Longrightarrow>
   fst (createPaymentTransaction sdk cfg src opts calls) =
     Inl (Error (''Error creating payment transaction: '' @ String_of e))"
  by (simp add: createPaymentTransaction_def HorizonService_loadAccount_def Operation_payment_def Let_def)

lemma createPaymentTransaction_memo_rejected:
  "server_loadAccount sdk src = Inr acct \<Longrightarrow>
   Operation_payment_rejects sdk (destination opts) (asset opts) (amount opts) = None \<Longrightarrow>
   memo opts = Some m \<Longrightarrow> m \<noteq> [] \<Longrightarrow> Memo_text_rejects sdk m = Some e \<Longrightarrow>
   fst (createPaymentTransaction sdk cfg src opts calls) =
     Inl (Error (''Error creating payment transaction: '' @ String_of e))"
  by (simp add: createPaymentTransaction_def HorizonService_loadAccount_def Operation_payment_def
        Memo_text_def Let_def)

lemma createTrustlineTransaction_operation_rejected:
  "server_loadAccount sdk src = Inr acct \<Longrightarrow>
   Operation_changeTrust_rejects sdk (trust_asset opts) (limit opts) = Some e \<Longrightarrow>
   fst (createTrustlineTransaction sdk cfg src opts calls) =
     Inl (Error (''Error creating trustline transaction: '' @ String_of e))"
  by (simp add: createTrustlineTransaction_def HorizonService_loadAccount_def Operation_changeTrust_def Let_def)

lemma createPaymentTransaction_builds:
  "server_loadAccount sdk src = Inr acct \<Longrightarrow>
   Operation_payment_rejects sdk (destination opts) (asset opts) (amount opts) = None \<Longrightarrow>
   (case memo opts of None \<Rightarrow> True | Some m \<Rightarrow> m = [] \<or> Memo_text_rejects sdk m = None) \<Longrightarrow>
   fst (createPaymentTransaction sdk cfg src opts calls) =
     Inr \<lparr>source = acct, fee = ''100'', tx_networkPassphrase = networkPassphrase cfg,
          operations = [Payment (destination opts) (asset opts) (amount opts)],
          tx_memo = (case memo opts of None \<Rightarrow> None
                     | Some m \<Rightarrow> if m = [] then None else Some (MemoText m)),
          timeout = Some 30, signatures = []\<rparr>"
  by (auto simp: createPaymentTransaction_def HorizonService_loadAccount_def Operation_payment_def
        Memo_text_def Let_def getNetworkPassphrase_def new_TransactionBuilder_def addOperation_def
        addMemo_def setTimeout_def build_def split: option.splits)

lemma createTrustlineTransaction_builds:
  "server_loadAccount sdk src = Inr acct \<Longrightarrow>
   Operation_changeTrust_rejects sdk (trust_asset opts) (limit opts) = None \<Longrightarrow>
   fst (createTrustlineTransaction sdk cfg src opts calls) =
     Inr \<lparr>source = acct, fee = ''100'', tx_networkPassphrase = networkPassphrase cfg,
          operations = [ChangeTrust (trust_asset opts) (limit opts)],
          tx_memo = None, timeout = Some 30, signatures = []\<rparr>"
  by (simp add: createTrustlineTransaction_def HorizonService_loadAccount_def Operation_changeTrust_def
        Let_def getNetworkPassphrase_def new_TransactionBuilder_def addOperation_def
        setTimeout_def build_def)

lemma submitTransaction_calls:
  "snd (submitTransaction sdk tx calls) = calls @ [SubmitCall tx]"
  by (simp add: submitTransaction_def HorizonService_submitTransaction_def
        split: sum.splits thrown.splits option.splits)

lemma submitted_append: "submitted (xs @ ys) = submitted xs @ submitted ys"
  by (induction xs rule: submitted.induct) simp_all

lemma createPaymentTransaction_error_name:
  "fst (createPaymentTransaction sdk cfg src opts calls) = Inl err \<Longrightarrow> error_name err = Some ''Error''"
  by (auto simp: createPaymentTransaction_def Let_def split: prod.splits sum.splits if_splits)

lemma createTrustlineTransaction_error_name:
  "fst (createTrustlineTransaction sdk cfg src opts calls) = Inl err \<Longrightarrow> error_name err = Some ''Error''"
  by (auto simp: createTrustlineTransaction_def Let_def split: prod.splits sum.splits if_splits)

text \<open>The example SDKs, field by field.\<close>

lemma accepting_sdk_fields:
  "server_loadAccount accepting_sdk pk = Inr \<lparr>account_id = pk, sequence = ''5''\<rparr>"
  "server_submitTransaction accepting_sdk tx = Inr [(''successful'', JsBoolean True)]"
  "Operation_payment_rejects accepting_sdk dest a amt = None"
  "Operation_changeTrust_rejects accepting_sdk a lim = None"
  "Memo_text_rejects accepting_sdk s = None"
  "Keypair_fromSecret accepting_sdk s = Inr ''GA''"
  by (simp_all add: accepting_sdk_def)

lemma no_account_sdk_fields:
  "server_loadAccount no_account_sdk pk = Inl (Thrown ''NotFoundError'' None)"
  by (simp add: no_account_sdk_def)

lemma strict_sdk_fields:
  "server_loadAccount strict_sdk pk = Inr \<lparr>account_id = pk, sequence = ''5''\<rparr>"
  "Operation_payment_rejects strict_sdk dest a amt =
     (if amt = ''-1'' then Some (Thrown ''Error: amount argument invalid'' None) else None)"
  "Operation_changeTrust_rejects strict_sdk a lim =
     (if lim = Some ''-1'' then Some (Thrown ''Error: limit argument invalid'' None) else None)"
  by (simp_all add: strict_sdk_def accepting_sdk_def)

lemma no_key_sdk_fields:
  "server_loadAccount no_key_sdk pk = Inr \<lparr>account_id = pk, sequence = ''5''\<rparr>"
  "Operation_payment_rejects no_key_sdk dest a amt = None"
  "Operation_changeTrust_rejects no_key_sdk a lim = None"
  "Memo_text_rejects no_key_sdk s = None"
  "Keypair_fromSecret no_key_sdk s = Inl (Thrown ''Error: invalid encoded string'' None)"
  by (simp_all add: no_key_sdk_def accepting_sdk_def)

lemma memo_strict_sdk_fields:
  "server_loadAccount memo_strict_sdk pk = Inr \<lparr>account_id = pk, sequence = ''5''\<rparr>"
  "Operation_payment_rejects memo_strict_sdk dest a amt = None"
  "Memo_text_rejects memo_strict_sdk s =
     (if 28 < length s then Some (Thrown ''Error: Expects string, array or buffer, max 28 bytes'' None)
      else None)"
  by (simp_all add: memo_strict_sdk_def accepting_sdk_def)

lemma rejecting_sdk_fields:
  "server_loadAccount rejecting_sdk pk = Inr \<lparr>account_id = pk, sequence = ''5''\<rparr>"
  "Operation_payment_rejects rejecting_sdk dest a amt = None"
  "Memo_text_rejects rejecting_sdk s = None"
  "Keypair_fromSecret rejecting_sdk s = Inr ''GA''"
  "server_submitTransaction rejecting_sdk tx =
     Inl (Thrown ''Error: Request failed with status code 400'' (Some (Some [(''transaction'', ''tx_bad_seq'')])))"
  "JSON_stringify rejecting_sdk [(''transaction'', ''tx_bad_seq'')] = ''transaction:tx_bad_seq''"
  by (simp_all add: rejecting_sdk_def accepting_sdk_def)

text \<open>
  Claim C5, as the code has it. When the source account loads and the SDK accepts the
  operation (and the memo, when one is attached), \<open>createPaymentTransaction\<close> returns
  an envelope with exactly one payment operation made of the intent's destination,
  asset and amount, and \<open>createTrustlineTransaction\<close> one with exactly one
  \<open>changeTrust\<close> operation made of the intent's asset and limit; both with fee
  \<open>"100"\<close> and a timeout of 30 seconds. The payment envelope carries a text memo
  exactly when the intent's memo is a non-empty string (\<open>if (options.memo)\<close>); the
  trustline envelope never carries one.
\<close>

theorem build_single_operation_envelope:
  "(server_loadAccount sdk src = Inr acct
      \<and> Operation_payment_rejects sdk (destination popts) (asset popts) (amount popts) = None
      \<and> (case memo popts of None \<Rightarrow> True | Some m \<Rightarrow> m = [] \<or> Memo_text_rejects sdk m = None) \<longrightarrow>
    fst (createPaymentTransaction sdk cfg src popts calls) =
      Inr \<lparr>source = acct, fee = ''100'', tx_networkPassphrase = networkPassphrase cfg,
           operations = [Payment (destination popts) (asset popts) (amount popts)],
           tx_memo = (case memo popts of None \<Rightarrow> None
                      | Some m \<Rightarrow> if m = [] then None else Some (MemoText m)),
           timeout = Some 30, signatures = []\<rparr>)
   \<and> (server_loadAccount sdk src = Inr acct
      \<and> Operation_changeTrust_rejects sdk (trust_asset topts) (limit topts) = None \<longrightarrow>
    fst (createTrustlineTransaction sdk cfg src topts calls) =
      Inr \<lparr>source = acct, fee = ''100'', tx_networkPassphrase = networkPassphrase cfg,
           operations = [ChangeTrust (trust_asset topts) (limit topts)],
           tx_memo = None, timeout = Some 30, signatures = []\<rparr>)"
  using createPaymentTransaction_builds [of sdk src acct popts cfg calls]
    createTrustlineTransaction_builds [of sdk src acct topts cfg calls]
  by blast

text \<open>A payment without a memo, one with the memo \<open>rent\<close>, and a trustline.\<close>

theorem build_single_operation_envelope_witness:
  "server_loadAccount accepting_sdk ''GA'' = Inr \<lparr>account_id = ''GA'', sequence = ''5''\<rparr>
   \<and> fst (createPaymentTransaction accepting_sdk test_config ''GA'' payment_10 []) =
      Inr \<lparr>source = \<lparr>account_id = ''GA'', sequence = ''5''\<rparr>, fee = ''100'',
           tx_networkPassphrase = ''Test SDF Network ; September 2015'',
           operations = [Payment ''GB'' Native ''10''], tx_memo = None,
           timeout = Some 30, signatures = []\<rparr>
   \<and> fst (createPaymentTransaction accepting_sdk test_config ''GA'' (payment_10\<lparr>memo := Some ''rent''\<rparr>) []) =
      Inr \<lparr>source = \<lparr>account_id = ''GA'', sequence = ''5''\<rparr>, fee = ''100'',
           tx_networkPassphrase = ''Test SDF Network ; September 2015'',
           operations = [Payment ''GB'' Native ''10''], tx_memo = Some (MemoText ''rent''),
           timeout = Some 30, signatures = []\<rparr>
   \<and> fst (createTrustlineTransaction accepting_sdk test_config ''GA'' trust_usd []) =
      Inr \<lparr>source = \<lparr>account_id = ''GA'', sequence = ''5''\<rparr>, fee = ''100'',
           tx_networkPassphrase = ''Test SDF Network ; September 2015'',
           operations = [ChangeTrust (Issued ''USD'' ''GI'') (Some ''1000'')], tx_memo = None,
           timeout = Some 30, signatures = []\<rparr>"
  using build_single_operation_envelope [of accepting_sdk "''GA''" "\<lparr>account_id = ''GA'', sequence = ''5''\<rparr>"
      payment_10 test_config "[]" trust_usd]
    build_single_operation_envelope [of accepting_sdk "''GA''" "\<lparr>account_id = ''GA'', sequence = ''5''\<rparr>"
      "payment_10\<lparr>memo := Some ''rent''\<rparr>" test_config "[]" trust_usd]
  by (simp add: accepting_sdk_fields payment_10_def trust_usd_def test_config_def)

text \<open>
  The claim as the specification states it fails for an intent that supplies the empty
  string as its memo: the envelope carries no memo.
\<close>

theorem build_empty_memo_counterexample:
  "memo (payment_10\<lparr>memo := Some ''''\<rparr>) = Some ''''
   \<and> fst (createPaymentTransaction accepting_sdk test_config ''GA'' (payment_10\<lparr>memo := Some ''''\<rparr>) []) =
      Inr \<lparr>source = \<lparr>account_id = ''GA'', sequence = ''5''\<rparr>, fee = ''100'',
           tx_networkPassphrase = ''Test SDF Network ; September 2015'',
           operations = [Payment ''GB'' Native ''10''], tx_memo = None,
           timeout = Some 30, signatures = []\<rparr>"
  by (simp add: createPaymentTransaction_def HorizonService_loadAccount_def Operation_payment_def
        Let_def getNetworkPassphrase_def new_TransactionBuilder_def addOperation_def
        setTimeout_def build_def accepting_sdk_fields payment_10_def test_config_def)

text \<open>
  Claim C9, as the code has it. Every failure of \<open>createPaymentTransaction\<close> and
  \<open>createTrustlineTransaction\<close> is a plain \<open>Error\<close>, whose message is the stage prefix
  followed by the string form of the cause: \<open>"Error: Error loading account: ..."\<close> when
  the source account cannot be loaded, the text of the SDK's own error when the SDK
  rejects the intent's fields. The failure classes differ in their message only.
\<close>

theorem build_failures_are_generic_errors:
  "(server_loadAccount sdk src = Inl e \<longrightarrow>
      fst (createPaymentTransaction sdk cfg src popts calls) =
        Inl (Error (''Error creating payment transaction: Error: Error loading account: '' @ String_of e))
    \<and> fst (createTrustlineTransaction sdk cfg src topts calls) =
        Inl (Error (''Error creating trustline transaction: Error: Error loading account: '' @ String_of e)))
   \<and> (server_loadAccount sdk src = Inr acct
        \<and> Operation_payment_rejects sdk (destination popts) (asset popts) (amount popts) = Some e \<longrightarrow>
      fst (createPaymentTransaction sdk cfg src popts calls) =
        Inl (Error (''Error creating payment transaction: '' @ String_of e)))
   \<and> (server_loadAccount sdk src = Inr acct
        \<and> Operation_changeTrust_rejects sdk (trust_asset topts) (limit topts) = Some e \<longrightarrow>
      fst (createTrustlineTransaction sdk cfg src topts calls) =
        Inl (Error (''Error creating trustline transaction: '' @ String_of e)))
   \<and> (fst (createPaymentTransaction sdk cfg src popts calls) = Inl err \<longrightarrow> error_name err = Some ''Error'')
   \<and> (fst (createTrustlineTransaction sdk cfg src topts calls) = Inl err \<longrightarrow> error_name err = Some ''Error'')
   \<and> (server_loadAccount sdk src = Inr acct
        \<and> Operation_payment_rejects sdk (destination popts) (asset popts) (amount popts) = None
        \<and> memo popts = Some m \<and> m \<noteq> [] \<and> Memo_text_rejects sdk m = Some e \<longrightarrow>
      fst (createPaymentTransaction sdk cfg src popts calls) =
        Inl (Error (''Error creating payment transaction: '' @ String_of e)))"
  using createPaymentTransaction_load_fails [of sdk src e cfg popts calls]
    createTrustlineTransaction_load_fails [of sdk src e cfg topts calls]
    createPaymentTransaction_operation_rejected [of sdk src acct popts e cfg calls]
    createTrustlineTransaction_operation_rejected [of sdk src acct topts e cfg calls]
    createPaymentTransaction_error_name [of sdk cfg src popts calls err]
    createTrustlineTransaction_error_name [of sdk cfg src topts calls err]
    createPaymentTransaction_memo_rejected [of sdk src acct popts m e cfg calls]
  by blast

text \<open>
  An account the server does not know; an amount and a limit the SDK rejects; a memo
  text the SDK rejects.
\<close>

theorem build_failures_are_generic_errors_witness:
  "server_loadAccount no_account_sdk ''GA'' = Inl (Thrown ''NotFoundError'' None)
   \<and> fst (createPaymentTransaction no_account_sdk test_config ''GA'' payment_10 []) =
       Inl (Error ''Error creating payment transaction: Error: Error loading account: NotFoundError'')
   \<and> fst (createTrustlineTransaction no_account_sdk test_config ''GA'' trust_usd []) =
       Inl (Error ''Error creating trustline transaction: Error: Error loading account: NotFoundError'')
   \<and> Operation_payment_rejects strict_sdk ''GB'' Native ''-1'' = Some (Thrown ''Error: amount argument invalid'' None)
   \<and> fst (createPaymentTransaction strict_sdk test_config ''GA'' (payment_10\<lparr>amount := ''-1''\<rparr>) []) =
       Inl (Error ''Error creating payment transaction: Error: amount argument invalid'')
   \<and> fst (createTrustlineTransaction strict_sdk test_config ''GA'' (trust_usd\<lparr>limit := Some ''-1''\<rparr>) []) =
       Inl (Error ''Error creating trustline transaction: Error: limit argument invalid'')
   \<and> error_name (Error ''Error creating payment transaction: Error: amount argument invalid'') = Some ''Error''
   \<and> Memo_text_rejects memo_strict_sdk ''a memo text that is far too long'' =
       Some (Thrown ''Error: Expects string, array or buffer, max 28 bytes'' None)
   \<and> fst (createPaymentTransaction memo_strict_sdk test_config ''GA''
          (payment_10\<lparr>memo := Some ''a memo text that is far too long''\<rparr>) []) =
       Inl (Error ''Error creating payment transaction: Error: Expects string, array or buffer, max 28 bytes'')"
  using build_failures_are_generic_errors [of no_account_sdk "''GA''" "Thrown ''NotFoundError'' None"
      test_config payment_10 "[]" trust_usd "\<lparr>account_id = ''GA'', sequence = ''5''\<rparr>"
      "Error ''Error creating payment transaction: Error: Error loading account: NotFoundError''" "''m''"]
    build_failures_are_generic_errors [of strict_sdk "''GA''" "Thrown ''Error: amount argument invalid'' None"
      test_config "payment_10\<lparr>amount := ''-1''\<rparr>" "[]" trust_usd "\<lparr>account_id = ''GA'', sequence = ''5''\<rparr>"
      "Error ''Error creating payment transaction: Error: amount argument invalid''" "''m''"]
    build_failures_are_generic_errors [of strict_sdk "''GA''" "Thrown ''Error: limit argument invalid'' None"
      test_config payment_10 "[]" "trust_usd\<lparr>limit := Some ''-1''\<rparr>" "\<lparr>account_id = ''GA'', sequence = ''5''\<rparr>"
      "Error ''Error creating trustline transaction: Error: limit argument invalid''" "''m''"]
    build_failures_are_generic_errors [where sdk = memo_strict_sdk and src = "''GA''"
      and e = "Thrown ''Error: Expects string, array or buffer, max 28 bytes'' None"
      and cfg = test_config and popts = "payment_10\<lparr>memo := Some ''a memo text that is far too long''\<rparr>"
      and calls = "[]" and topts = trust_usd and acct = "\<lparr>account_id = ''GA'', sequence = ''5''\<rparr>"
      and err = "Error ''Error creating payment transaction: Error: Expects string, array or buffer, max 28 bytes''"
      and m = "''a memo text that is far too long''"]
  by (simp add: no_account_sdk_fields strict_sdk_fields memo_strict_sdk_fields payment_10_def trust_usd_def)

text \<open>
  The claim as the specification states it fails: the error for an account that cannot
  be loaded is not an \<open>AccountNotFound\<close>, the error for a rejected amount is not
  an \<open>InvalidIntent\<close>; both are errors named \<open>Error\<close>.
\<close>

theorem build_failure_class_counterexample:
  "server_loadAccount no_account_sdk ''GA'' = Inl (Thrown ''NotFoundError'' None)
   \<and> fst (createPaymentTransaction no_account_sdk test_config ''GA'' payment_10 []) =
       Inl (Error ''Error creating payment transaction: Error: Error loading account: NotFoundError'')
   \<and> \<not> fails_with ''AccountNotFound'' (fst (createPaymentTransaction no_account_sdk test_config ''GA'' payment_10 []))
   \<and> fst (createPaymentTransaction strict_sdk test_config ''GA'' (payment_10\<lparr>amount := ''-1''\<rparr>) []) =
       Inl (Error ''Error creating payment transaction: Error: amount argument invalid'')
   \<and> \<not> fails_with ''InvalidIntent''
        (fst (createPaymentTransaction strict_sdk test_config ''GA'' (payment_10\<lparr>amount := ''-1''\<rparr>) []))
   \<and> fails_with ''Error'' (fst (createPaymentTransaction no_account_sdk test_config ''GA'' payment_10 []))
   \<and> fails_with ''Error''
        (fst (createPaymentTransaction strict_sdk test_config ''GA'' (payment_10\<lparr>amount := ''-1''\<rparr>) []))"
  by (simp add: createPaymentTransaction_def HorizonService_loadAccount_def Operation_payment_def
        Let_def no_account_sdk_fields strict_sdk_fields payment_10_def fails_with_def)

section \<open>Build, sign, submit\<close>

lemma createPaymentTransaction_pair:
  "createPaymentTransaction sdk cfg src opts calls =
     (fst (createPaymentTransaction sdk cfg src opts calls), calls @ [LoadAccountCall src])"
  using createPaymentTransaction_calls [of sdk cfg src opts calls]
  by (cases "createPaymentTransaction sdk cfg src opts calls") simp

lemma createTrustlineTransaction_pair:
  "createTrustlineTransaction sdk cfg src opts calls =
     (fst (createTrustlineTransaction sdk cfg src opts calls), calls @ [LoadAccountCall src])"
  using createTrustlineTransaction_calls [of sdk cfg src opts calls]
  by (cases "createTrustlineTransaction sdk cfg src opts calls") simp

lemma submitTransaction_pair:
  "submitTransaction sdk tx calls = (fst (submitTransaction sdk tx calls), calls @ [SubmitCall tx])"
  using submitTransaction_calls [of sdk tx calls]
  by (cases "submitTransaction sdk tx calls") simp

lemma sendPayment_build_fails:
  assumes "fst (createPaymentTransaction sdk cfg src opts calls) = Inl e"
  shows "sendPayment sdk cfg src sk opts calls =
           (Inl (Error (''Error sending payment: '' @ String_of e)), calls @ [LoadAccountCall src])"
  by (subst sendPayment_def, subst createPaymentTransaction_pair) (simp add: assms)

lemma sendPayment_sign_fails:
  assumes "fst (createPaymentTransaction sdk cfg src opts calls) = Inr tx"
    and "signTransaction sdk tx sk = Inl e"
  shows "sendPayment sdk cfg src sk opts calls =
           (Inl (Error (''Error sending payment: '' @ String_of e)), calls @ [LoadAccountCall src])"
  by (subst sendPayment_def, subst createPaymentTransaction_pair) (simp add: assms)

lemma sendPayment_submits:
  assumes "fst (createPaymentTransaction sdk cfg src opts calls) = Inr tx"
    and "signTransaction sdk tx sk = Inr stx"
  shows "sendPayment sdk cfg src sk opts calls =
           (case fst (submitTransaction sdk stx (calls @ [LoadAccountCall src])) of
              Inl error \<Rightarrow> Inl (Error (''Error sending payment: '' @ String_of error))
            | Inr result \<Rightarrow> Inr result,
            calls @ [LoadAccountCall src, SubmitCall stx])"
  by (subst sendPayment_def, subst createPaymentTransaction_pair, subst submitTransaction_pair)
     (simp add: assms split: sum.splits)

lemma addTrustline_build_fails:
  assumes "fst (createTrustlineTransaction sdk cfg src opts calls) = Inl e"
  shows "addTrustline sdk cfg src sk opts calls =
           (Inl (Error (''Error adding trustline: '' @ String_of e)), calls @ [LoadAccountCall src])"
  by (subst addTrustline_def, subst createTrustlineTransaction_pair) (simp add: assms)

lemma addTrustline_sign_fails:
  assumes "fst (createTrustlineTransaction sdk cfg src opts calls) = Inr tx"
    and "signTransaction sdk tx sk = Inl e"
  shows "addTrustline sdk cfg src sk opts calls =
           (Inl (Error (''Error adding trustline: '' @ String_of e)), calls @ [LoadAccountCall src])"
  by (subst addTrustline_def, subst createTrustlineTransaction_pair) (simp add: assms)

lemma addTrustline_submits:
  assumes "fst (createTrustlineTransaction sdk cfg src opts calls) = Inr tx"
    and "signTransaction sdk tx sk = Inr stx"
  shows "addTrustline sdk cfg src sk opts calls =
           (case fst (submitTransaction sdk stx (calls @ [LoadAccountCall src])) of
              Inl error \<Rightarrow> Inl (Error (''Error adding trustline: '' @ String_of error))
            | Inr result \<Rightarrow> Inr result,
            calls @ [LoadAccountCall src, SubmitCall stx])"
  by (subst addTrustline_def, subst createTrustlineTransaction_pair, subst submitTransaction_pair)
     (simp add: assms split: sum.splits)

lemma submitTransaction_rejected:
  "server_submitTransaction sdk tx = Inl (Thrown shown (Some (Some codes))) \<Longrightarrow>
   fst (submitTransaction sdk tx calls) =
     Inl (Error (''Error submitting transaction: Error: Transaction failed: '' @ JSON_stringify sdk codes))"
  by (simp add: submitTransaction_def HorizonService_submitTransaction_def)

text \<open>
  Claim C3. When building the envelope fails (the account does not load, or the SDK
  rejects the operation or the memo), or when signing fails, \<open>sendPayment\<close> and
  \<open>addTrustline\<close> reject with the failed stage's error, wrapped in their own message,
  and nothing has been submitted to the server. When both stages succeed, the calls on
  the server are the account load followed by one submission, of the signed envelope.
\<close>

theorem execute_never_submits_after_failure:
  "(fst (createPaymentTransaction sdk cfg src popts calls) = Inl e \<longrightarrow>
      fst (sendPayment sdk cfg src sk popts calls) = Inl (Error (''Error sending payment: '' @ String_of e))
    \<and> submitted (snd (sendPayment sdk cfg src sk popts calls)) = submitted calls)
   \<and> (fst (createPaymentTransaction sdk cfg src popts calls) = Inr tx \<and> signTransaction sdk tx sk = Inl e \<longrightarrow>
      fst (sendPayment sdk cfg src sk popts calls) = Inl (Error (''Error sending payment: '' @ String_of e))
    \<and> submitted (snd (sendPayment sdk cfg src sk popts calls)) = submitted calls)
   \<and> (fst (createPaymentTransaction sdk cfg src popts calls) = Inr tx \<and> signTransaction sdk tx sk = Inr stx \<longrightarrow>
      snd (sendPayment sdk cfg src sk popts calls) = calls @ [LoadAccountCall src, SubmitCall stx])
   \<and> (fst (createTrustlineTransaction sdk cfg src topts calls) = Inl e \<longrightarrow>
      fst (addTrustline sdk cfg src sk topts calls) = Inl (Error (''Error adding trustline: '' @ String_of e))
    \<and> submitted (snd (addTrustline sdk cfg src sk topts calls)) = submitted calls)
   \<and> (fst (createTrustlineTransaction sdk cfg src topts calls) = Inr tx \<and> signTransaction sdk tx sk = Inl e \<longrightarrow>
      fst (addTrustline sdk cfg src sk topts calls) = Inl (Error (''Error adding trustline: '' @ String_of e))
    \<and> submitted (snd (addTrustline sdk cfg src sk topts calls)) = submitted calls)
   \<and> (fst (createTrustlineTransaction sdk cfg src topts calls) = Inr tx \<and> signTransaction sdk tx sk = Inr stx \<longrightarrow>
      snd (addTrustline sdk cfg src sk topts calls) = calls @ [LoadAccountCall src, SubmitCall stx])"
proof (intro conjI impI)
  assume a: "fst (createPaymentTransaction sdk cfg src popts calls) = Inl e"
  show "fst (sendPayment sdk cfg src sk popts calls) = Inl (Error (''Error sending payment: '' @ String_of e))"
    by (simp add: sendPayment_build_fails [OF a])
  show "submitted (snd (sendPayment sdk cfg src sk popts calls)) = submitted calls"
    by (simp add: sendPayment_build_fails [OF a] submitted_append)
next
  assume a: "fst (createPaymentTransaction sdk cfg src popts calls) = Inr tx \<and> signTransaction sdk tx sk = Inl e"
  note s = sendPayment_sign_fails [OF conjunct1 [OF a] conjunct2 [OF a]]
  show "fst (sendPayment sdk cfg src sk popts calls) = Inl (Error (''Error sending payment: '' @ String_of e))"
    by (simp add: s)
  show "submitted (snd (sendPayment sdk cfg src sk popts calls)) = submitted calls"
    by (simp add: s submitted_append)
next
  assume a: "fst (createPaymentTransaction sdk cfg src popts calls) = Inr tx \<and> signTransaction sdk tx sk = Inr stx"
  show "snd (sendPayment sdk cfg src sk popts calls) = calls @ [LoadAccountCall src, SubmitCall stx]"
    by (simp add: sendPayment_submits [OF conjunct1 [OF a] conjunct2 [OF a]])
next
  assume a: "fst (createTrustlineTransaction sdk cfg src topts calls) = Inl e"
  show "fst (addTrustline sdk cfg src sk topts calls) = Inl (Error (''Error adding trustline: '' @ String_of e))"
    by (simp add: addTrustline_build_fails [OF a])
  show "submitted (snd (addTrustline sdk cfg src sk topts calls)) = submitted calls"
    by (simp add: addTrustline_build_fails [OF a] submitted_append)
next
  assume a: "fst (createTrustlineTransaction sdk cfg src topts calls) = Inr tx \<and> signTransaction sdk tx sk = Inl e"
  note s = addTrustline_sign_fails [OF conjunct1 [OF a] conjunct2 [OF a]]
  show "fst (addTrustline sdk cfg src sk topts calls) = Inl (Error (''Error adding trustline: '' @ String_of e))"
    by (simp add: s)
  show "submitted (snd (addTrustline sdk cfg src sk topts calls)) = submitted calls"
    by (simp add: s submitted_append)
next
  assume a: "fst (createTrustlineTransaction sdk cfg src topts calls) = Inr tx \<and> signTransaction sdk tx sk = Inr stx"
  show "snd (addTrustline sdk cfg src sk topts calls) = calls @ [LoadAccountCall src, SubmitCall stx]"
    by (simp add: addTrustline_submits [OF conjunct1 [OF a] conjunct2 [OF a]])
qed

text \<open>A failed load, a failed signature and a full run, for a payment and for a trustline.\<close>

theorem execute_never_submits_after_failure_witness:
  "fst (createPaymentTransaction no_account_sdk test_config ''GA'' payment_10 []) =
       Inl (Error ''Error creating payment transaction: Error: Error loading account: NotFoundError'')
   \<and> fst (sendPayment no_account_sdk test_config ''GA'' ''SA'' payment_10 []) =
       Inl (Error ''Error sending payment: Error: Error creating payment transaction: Error: Error loading account: NotFoundError'')
   \<and> submitted (snd (sendPayment no_account_sdk test_config ''GA'' ''SA'' payment_10 [])) = []
   \<and> signTransaction no_key_sdk
        \<lparr>source = \<lparr>account_id = ''GA'', sequence = ''5''\<rparr>, fee = ''100'',
         tx_networkPassphrase = ''Test SDF Network ; September 2015'',
         operations = [Payment ''GB'' Native ''10''], tx_memo = None,
         timeout = Some 30, signatures = []\<rparr> ''SA''
       = Inl (Error ''Error signing transaction: Error: invalid encoded string'')
   \<and> fst (sendPayment no_key_sdk test_config ''GA'' ''SA'' payment_10 []) =
       Inl (Error ''Error sending payment: Error: Error signing transaction: Error: invalid encoded string'')
   \<and> submitted (snd (sendPayment no_key_sdk test_config ''GA'' ''SA'' payment_10 [])) = []
   \<and> snd (sendPayment accepting_sdk test_config ''GA'' ''SA'' payment_10 []) =
       [LoadAccountCall ''GA'',
        SubmitCall \<lparr>source = \<lparr>account_id = ''GA'', sequence = ''5''\<rparr>, fee = ''100'',
          tx_networkPassphrase = ''Test SDF Network ; September 2015'',
          operations = [Payment ''GB'' Native ''10''], tx_memo = None,
          timeout = Some 30, signatures = [''GA'']\<rparr>]
   \<and> fst (addTrustline no_account_sdk test_config ''GA'' ''SA'' trust_usd []) =
       Inl (Error ''Error adding trustline: Error: Error creating trustline transaction: Error: Error loading account: NotFoundError'')
   \<and> submitted (snd (addTrustline no_account_sdk test_config ''GA'' ''SA'' trust_usd [])) = []
   \<and> fst (addTrustline no_key_sdk test_config ''GA'' ''SA'' trust_usd []) =
       Inl (Error ''Error adding trustline: Error: Error signing transaction: Error: invalid encoded string'')
   \<and> submitted (snd (addTrustline no_key_sdk test_config ''GA'' ''SA'' trust_usd [])) = []
   \<and> snd (addTrustline accepting_sdk test_config ''GA'' ''SA'' trust_usd []) =
       [LoadAccountCall ''GA'',
        SubmitCall \<lparr>source = \<lparr>account_id = ''GA'', sequence = ''5''\<rparr>, fee = ''100'',
          tx_networkPassphrase = ''Test SDF Network ; September 2015'',
          operations = [ChangeTrust (Issued ''USD'' ''GI'') (Some ''1000'')], tx_memo = None,
          timeout = Some 30, signatures = [''GA'']\<rparr>]"
proof -
  let ?ptx = "\<lparr>source = \<lparr>account_id = ''GA'', sequence = ''5''\<rparr>, fee = ''100'',
         tx_networkPassphrase = ''Test SDF Network ; September 2015'',
         operations = [Payment ''GB'' Native ''10''], tx_memo = None,
         timeout = Some 30, signatures = []\<rparr>"
  let ?ttx = "\<lparr>source = \<lparr>account_id = ''GA'', sequence = ''5''\<rparr>, fee = ''100'',
         tx_networkPassphrase = ''Test SDF Network ; September 2015'',
         operations = [ChangeTrust (Issued ''USD'' ''GI'') (Some ''1000'')], tx_memo = None,
         timeout = Some 30, signatures = []\<rparr>"
  let ?e1 = "Error ''Error creating payment transaction: Error: Error loading account: NotFoundError''"
  let ?e2 = "Error ''Error creating trustline transaction: Error: Error loading account: NotFoundError''"
  let ?e3 = "Error ''Error signing transaction: Error: invalid encoded string''"
  have p1: "fst (createPaymentTransaction no_account_sdk test_config ''GA'' payment_10 []) = Inl ?e1"
    using createPaymentTransaction_load_fails [of no_account_sdk "''GA''" "Thrown ''NotFoundError'' None"]
    by (simp add: no_account_sdk_fields)
  have t1: "fst (createTrustlineTransaction no_account_sdk test_config ''GA'' trust_usd []) = Inl ?e2"
    using createTrustlineTransaction_load_fails [of no_account_sdk "''GA''" "Thrown ''NotFoundError'' None"]
    by (simp add: no_account_sdk_fields)
  have p2: "fst (createPaymentTransaction sdk test_config ''GA'' payment_10 []) = Inr ?ptx"
    if "server_loadAccount sdk ''GA'' = Inr \<lparr>account_id = ''GA'', sequence = ''5''\<rparr>"
      and "Operation_payment_rejects sdk ''GB'' Native ''10'' = None" for sdk
    using createPaymentTransaction_builds [of sdk "''GA''" "\<lparr>account_id = ''GA'', sequence = ''5''\<rparr>"
        payment_10 test_config "[]"] that
    by (simp add: payment_10_def test_config_def)
  have t2: "fst (createTrustlineTransaction sdk test_config ''GA'' trust_usd []) = Inr ?ttx"
    if "server_loadAccount sdk ''GA'' = Inr \<lparr>account_id = ''GA'', sequence = ''5''\<rparr>"
      and "Operation_changeTrust_rejects sdk (Issued ''USD'' ''GI'') (Some ''1000'') = None" for sdk
    using createTrustlineTransaction_builds [of sdk "''GA''" "\<lparr>account_id = ''GA'', sequence = ''5''\<rparr>"
        trust_usd test_config "[]"] that
    by (simp add: trust_usd_def test_config_def)
  have s1: "signTransaction no_key_sdk tx ''SA'' = Inl ?e3" for tx
    by (simp add: signTransaction_def no_key_sdk_fields)
  have s2: "signTransaction accepting_sdk tx ''SA'' = Inr (tx\<lparr>signatures := signatures tx @ [''GA'']\<rparr>)" for tx
    by (simp add: signTransaction_def accepting_sdk_fields)
  note T = execute_never_submits_after_failure
  from T [where sdk = no_account_sdk and cfg = test_config and src = "''GA''" and popts = payment_10
      and calls = "[]" and e = ?e1 and sk = "''SA''" and tx = ?ptx and stx = ?ptx and topts = trust_usd] p1
  have A: "fst (sendPayment no_account_sdk test_config ''GA'' ''SA'' payment_10 []) =
             Inl (Error (''Error sending payment: '' @ String_of ?e1))
         \<and> submitted (snd (sendPayment no_account_sdk test_config ''GA'' ''SA'' payment_10 [])) = []"
    by simp
  from T [where sdk = no_account_sdk and cfg = test_config and src = "''GA''" and popts = payment_10
      and calls = "[]" and e = ?e2 and sk = "''SA''" and tx = ?ptx and stx = ?ptx and topts = trust_usd] t1
  have B: "fst (addTrustline no_account_sdk test_config ''GA'' ''SA'' trust_usd []) =
             Inl (Error (''Error adding trustline: '' @ String_of ?e2))
         \<and> submitted (snd (addTrustline no_account_sdk test_config ''GA'' ''SA'' trust_usd [])) = []"
    by simp
  from T [where sdk = no_key_sdk and cfg = test_config and src = "''GA''" and popts = payment_10
      and calls = "[]" and e = ?e3 and sk = "''SA''" and tx = ?ptx and stx = ?ptx and topts = trust_usd]
    p2 [of no_key_sdk] s1 [of ?ptx]
  have C: "fst (sendPayment no_key_sdk test_config ''GA'' ''SA'' payment_10 []) =
             Inl (Error (''Error sending payment: '' @ String_of ?e3))
         \<and> submitted (snd (sendPayment no_key_sdk test_config ''GA'' ''SA'' payment_10 [])) = []"
    by (simp add: no_key_sdk_fields)
  from T [where sdk = no_key_sdk and cfg = test_config and src = "''GA''" and popts = payment_10
      and calls = "[]" and e = ?e3 and sk = "''SA''" and tx = ?ttx and stx = ?ttx and topts = trust_usd]
    t2 [of no_key_sdk] s1 [of ?ttx]
  have D: "fst (addTrustline no_key_sdk test_config ''GA'' ''SA'' trust_usd []) =
             Inl (Error (''Error adding trustline: '' @ String_of ?e3))
         \<and> submitted (snd (addTrustline no_key_sdk test_config ''GA'' ''SA'' trust_usd [])) = []"
    by (simp add: no_key_sdk_fields)
  from T [where sdk = accepting_sdk and cfg = test_config and src = "''GA''" and popts = payment_10
      and calls = "[]" and e = ?e3 and sk = "''SA''" and tx = ?ptx
      and stx = "?ptx\<lparr>signatures := [''GA'']\<rparr>" and topts = trust_usd]
    p2 [of accepting_sdk] s2 [of ?ptx]
  have E: "snd (sendPayment accepting_sdk test_config ''GA'' ''SA'' payment_10 []) =
             [LoadAccountCall ''GA'', SubmitCall (?ptx\<lparr>signatures := [''GA'']\<rparr>)]"
    by (simp add: accepting_sdk_fields)
  from T [where sdk = accepting_sdk and cfg = test_config and src = "''GA''" and popts = payment_10
      and calls = "[]" and e = ?e3 and sk = "''SA''" and tx = ?ttx
      and stx = "?ttx\<lparr>signatures := [''GA'']\<rparr>" and topts = trust_usd]
    t2 [of accepting_sdk] s2 [of ?ttx]
  have F: "snd (addTrustline accepting_sdk test_config ''GA'' ''SA'' trust_usd []) =
             [LoadAccountCall ''GA'', SubmitCall (?ttx\<lparr>signatures := [''GA'']\<rparr>)]"
    by (simp add: accepting_sdk_fields)
  show ?thesis
    using p1 s1 [of ?ptx] A B C D E F by simp
qed

section \<open>The stored accounts\<close>

lemma keychain_writes_append: "keychain_writes (xs @ ys) = keychain_writes xs @ keychain_writes ys"
  by (induction xs rule: keychain_writes.induct) simp_all

text \<open>
  What the key manager stores it reads back: after a \<open>storeAccount\<close> that succeeds,
  \<open>getAccount\<close> of the account's id gives the account, and after a \<open>deleteAccount\<close> it
  gives none.
\<close>

lemma find_after_store:
  "find (\<lambda>acc. acct_id acc = acct_id account)
     (case findIndex (acct_id account) accounts of
        Some existingIndex \<Rightarrow> accounts[existingIndex := account]
      | None \<Rightarrow> accounts @ [account]) = Some account"
proof (induction accounts)
  case Nil
  show ?case by simp
next
  case (Cons a accounts)
  then show ?case
    by (cases "findIndex (acct_id account) accounts") auto
qed

lemma keychain_password_after_write:
  "keychain_password (calls @ [KeychainSetCall accounts]) = Some accounts"
  by (simp add: keychain_password_def keychain_writes_append)

lemma getAccounts_calls:
  "getGenericPassword_throws kc = None \<Longrightarrow> snd (getAccounts kc calls) = calls"
  by (simp add: getAccounts_def split: option.splits)

lemma storeAccount_then_getAccount:
  assumes "getGenericPassword_throws kc = None" and "setGenericPassword_throws kc = None"
  shows "fst (StellarWallet_storeAccount kc account calls) = True"
    and "fst (StellarWallet_getAccount kc (acct_id account)
               (snd (StellarWallet_storeAccount kc account calls))) = Some account"
proof -
  obtain accounts where g: "getAccounts kc calls = (accounts, calls)"
    using getAccounts_calls [OF assms(1), of calls] by (cases "getAccounts kc calls") simp
  let ?accounts1 = "case findIndex (acct_id account) accounts of
        Some existingIndex \<Rightarrow> accounts[existingIndex := account]
      | None \<Rightarrow> accounts @ [account]"
  have s: "storeAccount kc account calls = (True, calls @ [KeychainSetCall ?accounts1])"
    by (simp add: storeAccount_def g assms Let_def)
  show "fst (StellarWallet_storeAccount kc account calls) = True"
    by (simp add: StellarWallet_storeAccount_def s)
  have "getAccounts kc (calls @ [KeychainSetCall ?accounts1]) = (?accounts1, calls @ [KeychainSetCall ?accounts1])"
    by (simp add: getAccounts_def assms keychain_password_after_write)
  then show "fst (StellarWallet_getAccount kc (acct_id account)
               (snd (StellarWallet_storeAccount kc account calls))) = Some account"
    by (simp add: StellarWallet_getAccount_def StellarWallet_storeAccount_def getAccount_def s
          find_after_store)
qed

lemma filter_same_length: "length xs = length (filter P xs) \<Longrightarrow> filter P xs = xs"
proof (induction xs)
  case Nil
  show ?case by simp
next
  case (Cons a xs)
  have le: "length (filter P xs) \<le> length xs"
    by (rule length_filter_le)
  show ?case
  proof (cases "P a")
    case True
    with Cons show ?thesis by simp
  next
    case False
    with Cons.prems have "Suc (length xs) = length (filter P xs)" by simp
    with le have False by arith
    then show ?thesis ..
  qed
qed

lemma find_filtered_out: "find P (filter (\<lambda>x. \<not> P x) xs) = None"
  by (induction xs) auto

lemma deleteAccount_then_getAccount:
  assumes "getGenericPassword_throws kc = None" and "setGenericPassword_throws kc = None"
  shows "fst (StellarWallet_getAccount kc i (snd (StellarWallet_deleteAccount kc i calls))) = None"
proof -
  obtain accounts where g: "getAccounts kc calls = (accounts, calls)"
    using getAccounts_calls [OF assms(1), of calls] by (cases "getAccounts kc calls") simp
  let ?filtered = "filter (\<lambda>acc. acct_id acc \<noteq> i) accounts"
  show ?thesis
  proof (cases "length accounts = length ?filtered")
    case True
    then have d: "deleteAccount kc i calls = (False, calls)"
      by (simp add: deleteAccount_def g Let_def)
    from True have "?filtered = accounts"
      by (rule filter_same_length)
    then have "find (\<lambda>acc. acct_id acc = i) accounts = None"
      using find_filtered_out [of "\<lambda>acc. acct_id acc = i" accounts] by simp
    then show ?thesis
      by (simp add: StellarWallet_getAccount_def StellarWallet_deleteAccount_def getAccount_def d g)
  next
    case False
    then have d: "deleteAccount kc i calls = (True, calls @ [KeychainSetCall ?filtered])"
      by (simp add: deleteAccount_def g Let_def assms)
    have "getAccounts kc (calls @ [KeychainSetCall ?filtered]) = (?filtered, calls @ [KeychainSetCall ?filtered])"
      by (simp add: getAccounts_def assms keychain_password_after_write)
    then show ?thesis
      using find_filtered_out [of "\<lambda>acc. acct_id acc = i" accounts]
      by (simp add: StellarWallet_getAccount_def StellarWallet_deleteAccount_def getAccount_def d)
  qed
qed

text \<open>
  A payment or a trustline adds to the effects the account load and, at most, one
  submission; what the key manager reads depends on the keychain writes only.
\<close>

lemma sendPayment_effects:
  "snd (sendPayment sdk cfg src sk opts calls) = calls @ [LoadAccountCall src]
   \<or> (\<exists>stx. snd (sendPayment sdk cfg src sk opts calls) = calls @ [LoadAccountCall src, SubmitCall stx])"
proof (cases "fst (createPaymentTransaction sdk cfg src opts calls)")
  case (Inl e)
  then show ?thesis by (simp add: sendPayment_build_fails)
next
  case (Inr tx)
  show ?thesis
  proof (cases "signTransaction sdk tx sk")
    case (Inl e)
    with Inr show ?thesis by (simp add: sendPayment_sign_fails)
  next
    case signed: (Inr stx)
    with Inr show ?thesis by (simp add: sendPayment_submits)
  qed
qed

lemma addTrustline_effects:
  "snd (addTrustline sdk cfg src sk opts calls) = calls @ [LoadAccountCall src]
   \<or> (\<exists>stx. snd (addTrustline sdk cfg src sk opts calls) = calls @ [LoadAccountCall src, SubmitCall stx])"
proof (cases "fst (createTrustlineTransaction sdk cfg src opts calls)")
  case (Inl e)
  then show ?thesis by (simp add: addTrustline_build_fails)
next
  case (Inr tx)
  show ?thesis
  proof (cases "signTransaction sdk tx sk")
    case (Inl e)
    with Inr show ?thesis by (simp add: addTrustline_sign_fails)
  next
    case signed: (Inr stx)
    with Inr show ?thesis by (simp add: addTrustline_submits)
  qed
qed

lemma sendPayment_keychain_writes:
  "keychain_writes (snd (sendPayment sdk cfg src sk opts calls)) = keychain_writes calls"
  using sendPayment_effects [of sdk cfg src sk opts calls]
  by (auto simp: keychain_writes_append)

lemma addTrustline_keychain_writes:
  "keychain_writes (snd (addTrustline sdk cfg src sk opts calls)) = keychain_writes calls"
  using addTrustline_effects [of sdk cfg src sk opts calls]
  by (auto simp: keychain_writes_append)

lemma getAccounts_depends_on_writes:
  "keychain_writes calls' = keychain_writes calls \<Longrightarrow>
   fst (getAccounts kc calls') = fst (getAccounts kc calls)"
  by (simp add: getAccounts_def keychain_password_def split: option.splits list.splits)

lemma sendPayment_error_name:
  "fst (sendPayment sdk cfg src sk opts calls) = Inl err \<Longrightarrow> error_name err = Some ''Error''"
  by (auto simp: sendPayment_def split: prod.splits sum.splits)

lemma addTrustline_error_name:
  "fst (addTrustline sdk cfg src sk opts calls) = Inl err \<Longrightarrow> error_name err = Some ''Error''"
  by (auto simp: addTrustline_def split: prod.splits sum.splits)

lemma stored_GA_accounts: "fst (getAccounts working_keychain stored_GA) = [account_GA]"
  by (simp add: getAccounts_def working_keychain_def stored_GA_def keychain_password_def)

lemma rejected_payment_10:
  "sendPayment rejecting_sdk test_config ''GA'' ''SA'' payment_10 calls =
     (Inl (Error ''Error sending payment: Error: Error submitting transaction: Error: Transaction failed: transaction:tx_bad_seq''),
      calls @ [LoadAccountCall ''GA'',
        SubmitCall \<lparr>source = \<lparr>account_id = ''GA'', sequence = ''5''\<rparr>, fee = ''100'',
          tx_networkPassphrase = ''Test SDF Network ; September 2015'',
          operations = [Payment ''GB'' Native ''10''], tx_memo = None,
          timeout = Some 30, signatures = [''GA'']\<rparr>])"
proof -
  let ?ptx = "\<lparr>source = \<lparr>account_id = ''GA'', sequence = ''5''\<rparr>, fee = ''100'',
         tx_networkPassphrase = ''Test SDF Network ; September 2015'',
         operations = [Payment ''GB'' Native ''10''], tx_memo = None,
         timeout = Some 30, signatures = []\<rparr>"
  let ?stx = "\<lparr>source = \<lparr>account_id = ''GA'', sequence = ''5''\<rparr>, fee = ''100'',
         tx_networkPassphrase = ''Test SDF Network ; September 2015'',
         operations = [Payment ''GB'' Native ''10''], tx_memo = None,
         timeout = Some 30, signatures = [''GA'']\<rparr>"
  have p: "fst (createPaymentTransaction rejecting_sdk test_config ''GA'' payment_10 calls) = Inr ?ptx"
    using createPaymentTransaction_builds [of rejecting_sdk "''GA''" "\<lparr>account_id = ''GA'', sequence = ''5''\<rparr>"
        payment_10 test_config calls]
    by (simp add: payment_10_def test_config_def rejecting_sdk_fields)
  have s: "signTransaction rejecting_sdk ?ptx ''SA'' = Inr ?stx"
    by (simp add: signTransaction_def rejecting_sdk_fields)
  have r: "server_submitTransaction rejecting_sdk ?stx =
      Inl (Thrown ''Error: Request failed with status code 400'' (Some (Some [(''transaction'', ''tx_bad_seq'')])))"
    by (rule rejecting_sdk_fields)
  show ?thesis
    by (simp add: sendPayment_submits [OF p s]
          submitTransaction_rejected [OF r, of "calls @ [LoadAccountCall ''GA'']"] rejecting_sdk_fields)
qed

text \<open>
  Claim C8, as the code has it. \<open>sendPayment\<close> and \<open>addTrustline\<close> of the wallet write
  nothing to the keychain, whatever the outcome: the keychain writes among the effects
  are the same before and after, and so is the account list the key manager reads.
  Every rejection of \<open>sendPayment\<close> is a plain \<open>Error\<close>, never an error named
  \<open>SubmissionRejected\<close>. When the server rejects the submission with result codes, the
  message of that \<open>Error\<close> is \<open>"Transaction failed: " + JSON.stringify(result_codes)\<close>
  wrapped by each layer, and the effects are the account load and the one submission.
\<close>

theorem sendPayment_leaves_account_store:
  "keychain_writes (snd (StellarWallet_sendPayment sdk cfg src sk popts calls)) = keychain_writes calls
   \<and> fst (StellarWallet_getAccounts kc (snd (StellarWallet_sendPayment sdk cfg src sk popts calls)))
       = fst (StellarWallet_getAccounts kc calls)
   \<and> keychain_writes (snd (StellarWallet_addTrustline sdk cfg src sk topts calls)) = keychain_writes calls
   \<and> fst (StellarWallet_getAccounts kc (snd (StellarWallet_addTrustline sdk cfg src sk topts calls)))
       = fst (StellarWallet_getAccounts kc calls)
   \<and> (fst (StellarWallet_sendPayment sdk cfg src sk popts calls) = Inl err \<longrightarrow>
        fails_with ''Error'' (fst (StellarWallet_sendPayment sdk cfg src sk popts calls))
      \<and> \<not> fails_with ''SubmissionRejected'' (fst (StellarWallet_sendPayment sdk cfg src sk popts calls)))
   \<and> (fst (createPaymentTransaction sdk cfg src popts calls) = Inr tx
        \<and> signTransaction sdk tx sk = Inr stx
        \<and> server_submitTransaction sdk stx = Inl (Thrown shown (Some (Some codes))) \<longrightarrow>
      fst (StellarWallet_sendPayment sdk cfg src sk popts calls) =
        Inl (Error (''Error sending payment: Error: Error submitting transaction: Error: Transaction failed: ''
                    @ JSON_stringify sdk codes))
      \<and> snd (StellarWallet_sendPayment sdk cfg src sk popts calls) =
          calls @ [LoadAccountCall src, SubmitCall stx])"
proof (intro conjI impI)
  show w1: "keychain_writes (snd (StellarWallet_sendPayment sdk cfg src sk popts calls)) = keychain_writes calls"
    by (simp add: StellarWallet_sendPayment_def sendPayment_keychain_writes)
  show w2: "keychain_writes (snd (StellarWallet_addTrustline sdk cfg src sk topts calls)) = keychain_writes calls"
    by (simp add: StellarWallet_addTrustline_def addTrustline_keychain_writes)
  show "fst (StellarWallet_getAccounts kc (snd (StellarWallet_sendPayment sdk cfg src sk popts calls)))
       = fst (StellarWallet_getAccounts kc calls)"
    unfolding StellarWallet_getAccounts_def by (rule getAccounts_depends_on_writes [OF w1])
  show "fst (StellarWallet_getAccounts kc (snd (StellarWallet_addTrustline sdk cfg src sk topts calls)))
       = fst (StellarWallet_getAccounts kc calls)"
    unfolding StellarWallet_getAccounts_def by (rule getAccounts_depends_on_writes [OF w2])
next
  assume a: "fst (StellarWallet_sendPayment sdk cfg src sk popts calls) = Inl err"
  then have n: "error_name err = Some ''Error''"
    by (simp add: StellarWallet_sendPayment_def sendPayment_error_name)
  show "fails_with ''Error'' (fst (StellarWallet_sendPayment sdk cfg src sk popts calls))"
    by (simp add: fails_with_def a n)
  show "\<not> fails_with ''SubmissionRejected'' (fst (StellarWallet_sendPayment sdk cfg src sk popts calls))"
    by (simp add: fails_with_def a n)
next
  assume a: "fst (createPaymentTransaction sdk cfg src popts calls) = Inr tx
        \<and> signTransaction sdk tx sk = Inr stx
        \<and> server_submitTransaction sdk stx = Inl (Thrown shown (Some (Some codes)))"
  then have b: "fst (createPaymentTransaction sdk cfg src popts calls) = Inr tx"
    and s: "signTransaction sdk tx sk = Inr stx"
    and r: "server_submitTransaction sdk stx = Inl (Thrown shown (Some (Some codes)))"
    by simp_all
  note sp = sendPayment_submits [OF b s]
  note rj = submitTransaction_rejected [OF r, of "calls @ [LoadAccountCall src]"]
  show "fst (StellarWallet_sendPayment sdk cfg src sk popts calls) =
        Inl (Error (''Error sending payment: Error: Error submitting transaction: Error: Transaction failed: ''
                    @ JSON_stringify sdk codes))"
    by (simp add: StellarWallet_sendPayment_def sp rj)
  show "snd (StellarWallet_sendPayment sdk cfg src sk popts calls) =
          calls @ [LoadAccountCall src, SubmitCall stx]"
    by (simp add: StellarWallet_sendPayment_def sp)
qed

text \<open>
  The server answers \<open>tx_bad_seq\<close> to a wallet that has stored the account \<open>GA\<close>: the
  key manager still reads that account after the rejected payment.
\<close>

theorem sendPayment_leaves_account_store_witness:
  "fst (StellarWallet_getAccounts working_keychain stored_GA) = [account_GA]
   \<and> fst (createPaymentTransaction rejecting_sdk test_config ''GA'' payment_10 stored_GA) =
      Inr \<lparr>source = \<lparr>account_id = ''GA'', sequence = ''5''\<rparr>, fee = ''100'',
         tx_networkPassphrase = ''Test SDF Network ; September 2015'',
         operations = [Payment ''GB'' Native ''10''], tx_memo = None,
         timeout = Some 30, signatures = []\<rparr>
   \<and> fst (StellarWallet_sendPayment rejecting_sdk test_config ''GA'' ''SA'' payment_10 stored_GA) =
      Inl (Error ''Error sending payment: Error: Error submitting transaction: Error: Transaction failed: transaction:tx_bad_seq'')
   \<and> fails_with ''Error''
        (fst (StellarWallet_sendPayment rejecting_sdk test_config ''GA'' ''SA'' payment_10 stored_GA))
   \<and> fst (StellarWallet_getAccounts working_keychain
        (snd (StellarWallet_sendPayment rejecting_sdk test_config ''GA'' ''SA'' payment_10 stored_GA)))
      = [account_GA]
   \<and> fst (StellarWallet_getAccounts working_keychain
        (snd (StellarWallet_addTrustline rejecting_sdk test_config ''GA'' ''SA'' trust_usd stored_GA)))
      = [account_GA]
   \<and> snd (StellarWallet_sendPayment rejecting_sdk test_config ''GA'' ''SA'' payment_10 stored_GA) =
      stored_GA @ [LoadAccountCall ''GA'',
       SubmitCall \<lparr>source = \<lparr>account_id = ''GA'', sequence = ''5''\<rparr>, fee = ''100'',
         tx_networkPassphrase = ''Test SDF Network ; September 2015'',
         operations = [Payment ''GB'' Native ''10''], tx_memo = None,
         timeout = Some 30, signatures = [''GA'']\<rparr>]"
proof -
  let ?ptx = "\<lparr>source = \<lparr>account_id = ''GA'', sequence = ''5''\<rparr>, fee = ''100'',
         tx_networkPassphrase = ''Test SDF Network ; September 2015'',
         operations = [Payment ''GB'' Native ''10''], tx_memo = None,
         timeout = Some 30, signatures = []\<rparr>"
  let ?stx = "\<lparr>source = \<lparr>account_id = ''GA'', sequence = ''5''\<rparr>, fee = ''100'',
         tx_networkPassphrase = ''Test SDF Network ; September 2015'',
         operations = [Payment ''GB'' Native ''10''], tx_memo = None,
         timeout = Some 30, signatures = [''GA'']\<rparr>"
  let ?err = "Error ''Error sending payment: Error: Error submitting transaction: Error: Transaction failed: transaction:tx_bad_seq''"
  have g: "fst (StellarWallet_getAccounts working_keychain stored_GA) = [account_GA]"
    by (simp add: StellarWallet_getAccounts_def stored_GA_accounts)
  have p: "fst (createPaymentTransaction rejecting_sdk test_config ''GA'' payment_10 stored_GA) = Inr ?ptx"
    using createPaymentTransaction_builds [of rejecting_sdk "''GA''" "\<lparr>account_id = ''GA'', sequence = ''5''\<rparr>"
        payment_10 test_config stored_GA]
    by (simp add: payment_10_def test_config_def rejecting_sdk_fields)
  have s: "signTransaction rejecting_sdk ?ptx ''SA'' = Inr ?stx"
    by (simp add: signTransaction_def rejecting_sdk_fields)
  have r: "server_submitTransaction rejecting_sdk ?stx =
      Inl (Thrown ''Error: Request failed with status code 400'' (Some (Some [(''transaction'', ''tx_bad_seq'')])))"
    by (rule rejecting_sdk_fields)
  note T = sendPayment_leaves_account_store [where sdk = rejecting_sdk and cfg = test_config
        and src = "''GA''" and sk = "''SA''" and popts = payment_10 and calls = stored_GA
        and topts = trust_usd and kc = working_keychain and err = ?err
        and tx = ?ptx and stx = ?stx
        and shown = "''Error: Request failed with status code 400''"
        and codes = "[(''transaction'', ''tx_bad_seq'')]"]
  have rej: "fst (StellarWallet_sendPayment rejecting_sdk test_config ''GA'' ''SA'' payment_10 stored_GA) = Inl ?err"
    using T p s r by (simp add: rejecting_sdk_fields)
  have fw: "fails_with ''Error''
        (fst (StellarWallet_sendPayment rejecting_sdk test_config ''GA'' ''SA'' payment_10 stored_GA))"
    using T rej by blast
  have a: "fst (StellarWallet_getAccounts working_keychain
        (snd (StellarWallet_sendPayment rejecting_sdk test_config ''GA'' ''SA'' payment_10 stored_GA)))
      = [account_GA]"
    using T [THEN conjunct2, THEN conjunct1] g by simp
  have b: "fst (StellarWallet_getAccounts working_keychain
        (snd (StellarWallet_addTrustline rejecting_sdk test_config ''GA'' ''SA'' trust_usd stored_GA)))
      = [account_GA]"
    using T [THEN conjunct2, THEN conjunct2, THEN conjunct2, THEN conjunct1] g by simp
  have c: "snd (StellarWallet_sendPayment rejecting_sdk test_config ''GA'' ''SA'' payment_10 stored_GA) =
      stored_GA @ [LoadAccountCall ''GA'', SubmitCall ?stx]"
    using T p s r by blast
  show ?thesis
    by (intro conjI) (rule g, rule p, rule rej, rule fw, rule a, rule b, rule c)
qed

text \<open>
  The claim as the specification states it fails: the rejection that carries the
  result code \<open>tx_bad_seq\<close> is not a \<open>SubmissionRejected\<close> but an error named
  \<open>Error\<close>.
\<close>

theorem sendPayment_rejection_class_counterexample:
  "fst (StellarWallet_sendPayment rejecting_sdk test_config ''GA'' ''SA'' payment_10 stored_GA) =
      Inl (Error ''Error sending payment: Error: Error submitting transaction: Error: Transaction failed: transaction:tx_bad_seq'')
   \<and> \<not> fails_with ''SubmissionRejected''
        (fst (StellarWallet_sendPayment rejecting_sdk test_config ''GA'' ''SA'' payment_10 stored_GA))
   \<and> fails_with ''Error''
        (fst (StellarWallet_sendPayment rejecting_sdk test_config ''GA'' ''SA'' payment_10 stored_GA))"
  by (simp add: StellarWallet_sendPayment_def rejected_payment_10 fails_with_def)

end
